theory Spec2Isabelle
  imports Complex_Main
begin

section \<open>Vectors and matrices\<close>

text \<open>
  The numpy arrays of \<^verbatim>\<open>station.py\<close> have shape (3,) and (3,3). A vector is a triple
  and a matrix is the triple of its rows. Python floats are idealised as real numbers;
  every constant the source writes (0, 1, -1) is exact in either arithmetic.
\<close>

type_synonym vec3 = "real \<times> real \<times> real"
type_synonym mat3 = "vec3 \<times> vec3 \<times> vec3"

text \<open>\<^verbatim>\<open>array([a, b, c])\<close> for integer literals.\<close>

definition array :: "int \<Rightarrow> int \<Rightarrow> int \<Rightarrow> vec3" where
  "array a b c = (real_of_int a, real_of_int b, real_of_int c)"

text \<open>\<^verbatim>\<open>v * k\<close> for an array \<open>v\<close> and the integer \<open>k\<close>.\<close>

fun times_int :: "vec3 \<Rightarrow> int \<Rightarrow> vec3" where
  "times_int (x, y, z) k = (x * real_of_int k, y * real_of_int k, z * real_of_int k)"

fun dot :: "vec3 \<Rightarrow> vec3 \<Rightarrow> real" where
  "dot (a1, a2, a3) (b1, b2, b3) = a1 * b1 + a2 * b2 + a3 * b3"

fun cross :: "vec3 \<Rightarrow> vec3 \<Rightarrow> vec3" where
  "cross (a1, a2, a3) (b1, b2, b3) =
     (a2 * b3 - a3 * b2, a3 * b1 - a1 * b3, a1 * b2 - a2 * b1)"

text \<open>
  \<^verbatim>\<open>pytransform3d.rotations.perpendicular_to_vectors(a, b)\<close> is the cross product
  of its arguments, as the source's own comment says; it does not normalise.
\<close>

definition perpendicular_to_vectors :: "vec3 \<Rightarrow> vec3 \<Rightarrow> vec3" where
  "perpendicular_to_vectors a b = cross a b"

text \<open>\<^verbatim>\<open>array([r0, r1, r2])\<close> stacks three vectors as rows; \<^verbatim>\<open>.T\<close> transposes.\<close>

definition array_rows :: "vec3 \<Rightarrow> vec3 \<Rightarrow> vec3 \<Rightarrow> mat3" where
  "array_rows r0 r1 r2 = (r0, r1, r2)"

fun T :: "mat3 \<Rightarrow> mat3" where
  "T ((a11, a12, a13), (a21, a22, a23), (a31, a32, a33)) =
     ((a11, a21, a31), (a12, a22, a32), (a13, a23, a33))"

text \<open>Column \<open>j\<close> (0, 1 or 2) of a matrix: the axes ex, ey, ez of a rotation.\<close>

fun column :: "mat3 \<Rightarrow> nat \<Rightarrow> vec3" where
  "column ((a11, a12, a13), (a21, a22, a23), (a31, a32, a33)) j =
     (if j = 0 then (a11, a21, a31) else if j = 1 then (a12, a22, a32) else (a13, a23, a33))"

definition det :: "mat3 \<Rightarrow> real" where
  "det m = dot (column m 0) (cross (column m 1) (column m 2))"

text \<open>
  Orthonormal within a tolerance: the columns are pairwise perpendicular and of unit
  length, each dot product within \<open>tol\<close> of its exact value.
\<close>

definition orthonormal_within :: "real \<Rightarrow> mat3 \<Rightarrow> bool" where
  "orthonormal_within tol m =
     (let ex = column m 0; ey = column m 1; ez = column m 2
      in \<bar>dot ex ex - 1\<bar> \<le> tol \<and> \<bar>dot ey ey - 1\<bar> \<le> tol \<and> \<bar>dot ez ez - 1\<bar> \<le> tol \<and>
         \<bar>dot ex ey\<bar> \<le> tol \<and> \<bar>dot ex ez\<bar> \<le> tol \<and> \<bar>dot ey ez\<bar> \<le> tol)"

section \<open>Errors and warnings\<close>

text \<open>
  \<open>ValueError\<close> and \<open>TypeError\<close> carry the source's message. \<open>AttributeError a\<close> is
  Python's error for reading or setting attribute \<open>a\<close> on \<^verbatim>\<open>None\<close>.
  \<open>ConfigurationError\<close> is the transform manager's refusal of a conflicting pair.
\<close>

datatype error =
    ValueError string
  | TypeError string
  | AttributeError string
  | ConfigurationError string string

section \<open>Transform manager\<close>

text \<open>
  The class \<^verbatim>\<open>mpldts.geometry.transforms.TransformManager\<close> is not part of the
  sources at hand. A transform is a rotation with a translation; the manager keeps the
  registered transforms by (source frame, target frame), in registration order.
\<close>

type_synonym transform = "mat3 \<times> vec3"

record TransformManager =
  initial_frame :: string
  transforms :: "((string \<times> string) \<times> transform) list"

definition TransformManager_init :: "string \<Rightarrow> TransformManager" where
  "TransformManager_init frame = \<lparr>initial_frame = frame, transforms = []\<rparr>"

text \<open>
  Modelled from the spec: \<^verbatim>\<open>TransformManager.add\<close>, absent from the sources. The
  translation defaults to zero when omitted; registering a pair again with the same
  values is accepted silently, with other values it is a configuration error.
\<close>

definition add ::
  "TransformManager \<Rightarrow> string \<Rightarrow> string \<Rightarrow> mat3 \<Rightarrow> vec3 option \<Rightarrow> error + TransformManager" where
  "add tm src tgt rotation_matrix translation_vector =
     (let tr = (rotation_matrix,
                case translation_vector of None \<Rightarrow> (0, 0, 0) | Some t \<Rightarrow> t)
      in case map_of (transforms tm) (src, tgt) of
           None \<Rightarrow> Inr (tm\<lparr>transforms := transforms tm @ [((src, tgt), tr)]\<rparr>)
         | Some old \<Rightarrow> if old = tr then Inr tm else Inl (ConfigurationError src tgt))"

text \<open>The transform registered for a pair of frames, if any.\<close>

definition registered :: "TransformManager \<Rightarrow> string \<Rightarrow> string \<Rightarrow> transform option" where
  "registered tm src tgt = map_of (transforms tm) (src, tgt)"

section \<open>Station: face orientation and transformer\<close>

text \<open>Lines 185-189 of \<^verbatim>\<open>Station._setup_tranformer\<close>.\<close>

definition face_orientation :: "int \<Rightarrow> int \<Rightarrow> int" where
  "face_orientation wheel sector =
     (if wheel < 0 then - 1
      else if wheel > 0 then 1
      else if sector \<in> set [1, 4, 5, 8, 9, 12, 13] then - 1
      else 1)"

text \<open>
  \<^verbatim>\<open>Station._setup_tranformer\<close>, reading \<^verbatim>\<open>_wheel\<close>, \<^verbatim>\<open>_sector\<close>,
  \<^verbatim>\<open>_direction\<close> and the global position of \<open>self\<close>. The scalar accessors
  \<^verbatim>\<open>_x_global\<close>, \<^verbatim>\<open>_y_global\<close>, \<^verbatim>\<open>_z_global\<close> of the absent base class
  \<^verbatim>\<open>DTFrame\<close> are the coordinates of the global position.
\<close>

definition setup_tranformer :: "int \<Rightarrow> int \<Rightarrow> vec3 \<Rightarrow> vec3 \<Rightarrow> error + TransformManager" where
  "setup_tranformer wheel sector direction global_center =
     (let transformer = TransformManager_init ''Station'';
          face = face_orientation wheel sector;
          CMSezSt = direction;
          CMSeySt = times_int (array 0 0 1) face;
          CMSexSt = perpendicular_to_vectors CMSeySt CMSezSt;
          RCMSSt = T (array_rows CMSexSt CMSeySt CMSezSt);
          TCMSSt = (fst global_center, fst (snd global_center), snd (snd global_center))
      in case add transformer ''Station'' ''CMS'' RCMSSt (Some TCMSSt) of
           Inl e \<Rightarrow> Inl e
         | Inr transformer1 \<Rightarrow>
             (let StNvezSt = array 0 0 (- 1);
                  StNvPhieySt = times_int (array 0 (- 1) 0) face;
                  StNvPhiexSt = perpendicular_to_vectors StNvPhieySt StNvezSt;
                  RStNvPhiSt = T (array_rows StNvPhiexSt StNvPhieySt StNvezSt)
              in case add transformer1 ''Station'' ''StationNvPhi'' RStNvPhiSt None of
                   Inl e \<Rightarrow> Inl e
                 | Inr transformer2 \<Rightarrow>
                     (let StNvEtaexSt = times_int (array (- 1) 0 0) face;
                          StNvEtaeySt = perpendicular_to_vectors StNvezSt StNvEtaexSt;
                          RStNvEtaSt = T (array_rows StNvEtaexSt StNvEtaeySt StNvezSt)
                      in add transformer2 ''Station'' ''StationNvEta'' RStNvEtaSt None)))"

section \<open>The component tree\<close>

text \<open>
  Python values held by a cell record: \<^verbatim>\<open>None\<close>, booleans, integers and strings.
\<close>

datatype pyval = PyNone | PyBool bool | PyInt int | PyStr string

text \<open>Python truthiness, as \<^verbatim>\<open>all([...])\<close> applies it.\<close>

fun truthy :: "pyval \<Rightarrow> bool" where
  "truthy PyNone = False"
| "truthy (PyBool b) = b"
| "truthy (PyInt n) = (n \<noteq> 0)"
| "truthy (PyStr s) = (s \<noteq> [])"

definition all_py :: "pyval list \<Rightarrow> bool" where
  "all_py vs = list_all truthy vs"

text \<open>\<^verbatim>\<open>number == v\<close> for an integer \<open>number\<close>: \<^verbatim>\<open>True == 1\<close> and \<^verbatim>\<open>False == 0\<close> hold.\<close>

fun eq_number :: "int \<Rightarrow> pyval \<Rightarrow> bool" where
  "eq_number k PyNone = False"
| "eq_number k (PyBool b) = (k = (if b then 1 else 0))"
| "eq_number k (PyInt n) = (k = n)"
| "eq_number k (PyStr s) = False"

text \<open>
  A dict with string keys, in insertion order; keys are distinct in a dict.
  \<^verbatim>\<open>d.pop(k, None)\<close> returns the value (or \<^verbatim>\<open>None\<close>) and the dict without the key.
\<close>

type_synonym pydict = "(string \<times> pyval) list"

definition pop :: "string \<Rightarrow> pydict \<Rightarrow> pyval \<times> pydict" where
  "pop k d = (case map_of d k of None \<Rightarrow> PyNone | Some v \<Rightarrow> v,
              filter (\<lambda>kv. fst kv \<noteq> k) d)"

text \<open>
  Modelled from the spec: the classes \<^verbatim>\<open>SuperLayer\<close>, \<^verbatim>\<open>Layer\<close> and the drift
  cell are absent from the sources. Each has a number and owns its children in the
  geometry source's order; a cell's caller-supplied attributes are a mapping from
  attribute name to value.
\<close>

record Cell =
  cell_number :: int
  attrs :: pydict

record Layer =
  layer_number :: int
  cells :: "Cell list"

record SuperLayer =
  sl_number :: int
  layers :: "Layer list"

text \<open>
  \<^verbatim>\<open>next((x for x in xs if p(x)), None)\<close>: the generator yields the elements that
  satisfy \<open>p\<close> in order, \<^verbatim>\<open>next\<close> takes the first or the default.
\<close>

definition next_or_None :: "('a \<Rightarrow> bool) \<Rightarrow> 'a list \<Rightarrow> 'a option" where
  "next_or_None p xs = (case filter p xs of [] \<Rightarrow> None | x # _ \<Rightarrow> Some x)"

text \<open>
  Modelled from the spec: \<^verbatim>\<open>SuperLayer.layer\<close> and \<^verbatim>\<open>Layer.cell\<close>, absent from the
  sources: lookup by number within a parent is a linear search over the children that
  returns \<^verbatim>\<open>None\<close> when the number is absent.
\<close>

definition layer :: "SuperLayer \<Rightarrow> pyval \<Rightarrow> Layer option" where
  "layer sl n = next_or_None (\<lambda>l. eq_number (layer_number l) n) (layers sl)"

definition cell :: "Layer \<Rightarrow> pyval \<Rightarrow> Cell option" where
  "cell lay n = next_or_None (\<lambda>c. eq_number (cell_number c) n) (cells lay)"

text \<open>\<^verbatim>\<open>setattr(cell, key, value)\<close>: a new or overwritten attribute.\<close>

fun setattr :: "pydict \<Rightarrow> string \<Rightarrow> pyval \<Rightarrow> pydict" where
  "setattr [] key v = [(key, v)]"
| "setattr ((k, u) # d) key v = (if k = key then (k, v) # d else (k, u) # setattr d key v)"

section \<open>Station\<close>

record Station =
  wheel :: int
  sector :: int
  number :: int
  rawId :: nat
  local_center :: vec3
  global_center :: vec3
  direction :: vec3
  bounds :: vec3
  transformer :: TransformManager
  super_layers :: "SuperLayer list"

text \<open>
  The geometry table \<^verbatim>\<open>DTGEOMETRY\<close> and the constructor of \<^verbatim>\<open>SuperLayer\<close> are
  absent from the sources and are parameters of the construction: the five lookups of
  \<^verbatim>\<open>Station.__init__\<close>, the enumeration of the super-layer elements of a chamber
  (their raw ids, in the table's order), and the super layer built for a raw id.
\<close>

record geometry_source =
  get_rawId :: "int \<Rightarrow> int \<Rightarrow> int \<Rightarrow> nat"
  get_LocalPosition :: "nat \<Rightarrow> vec3"
  get_GlobalPosition :: "nat \<Rightarrow> vec3"
  get_NormalVector :: "nat \<Rightarrow> vec3"
  get_Bounds :: "nat \<Rightarrow> vec3"
  iter_SuperLayer :: "nat \<Rightarrow> nat list"
  SuperLayer_init :: "nat \<Rightarrow> SuperLayer"

text \<open>The calls of \<^verbatim>\<open>DTGEOMETRY.get\<close> that the station itself makes, as a trace.\<close>

datatype lookup =
    Lookup_rawId int int int
  | Lookup_LocalPosition nat
  | Lookup_GlobalPosition nat
  | Lookup_NormalVector nat
  | Lookup_Bounds nat
  | Lookup_element nat

text \<open>The property setters (lines 119-157): the value stored, or the error raised.\<close>

definition wheel_setter :: "int \<Rightarrow> error + int" where
  "wheel_setter v =
     (if v < - 2 \<or> v > 2 then Inl (ValueError ''Wheel value must be between -2 and 2'')
      else Inr v)"

definition sector_setter :: "int \<Rightarrow> error + int" where
  "sector_setter v =
     (if v < 1 \<or> v > 14 then Inl (ValueError ''Sector value must be between 1 and 14'')
      else Inr v)"

definition number_setter :: "int \<Rightarrow> error + int" where
  "number_setter v =
     (if v < 1 \<or> v > 4 then Inl (ValueError ''Station value must be between 1 and 4'')
      else Inr v)"

text \<open>\<^verbatim>\<open>Station.super_layer\<close> (line 115).\<close>

definition super_layer :: "Station \<Rightarrow> pyval \<Rightarrow> SuperLayer option" where
  "super_layer self super_layer_number =
     next_or_None (\<lambda>sl. eq_number (sl_number sl) super_layer_number) (super_layers self)"

text \<open>\<^verbatim>\<open>Station._add_super_layer\<close> and \<^verbatim>\<open>Station._build_station\<close>, on the list.\<close>

definition add_super_layer :: "SuperLayer list \<Rightarrow> SuperLayer \<Rightarrow> SuperLayer list" where
  "add_super_layer sls sl = sls @ [sl]"

definition build_station :: "geometry_source \<Rightarrow> nat \<Rightarrow> SuperLayer list" where
  "build_station g rid =
     foldl (\<lambda>sls sl_id. add_super_layer sls (SuperLayer_init g sl_id)) [] (iter_SuperLayer g rid)"

section \<open>Cell attribute ingestion\<close>

text \<open>
  The warning of line 261 carries the values its message interpolates: the super layer
  number asked for, and the wheel, sector and number that make the station's name.
\<close>

datatype warning = SuperLayer_does_not_exist pyval int int int

text \<open>
  The located cell is mutated in place. In the tree that is the first super layer, layer
  and cell the three linear searches stop at; every other node stays as it is.
\<close>

fun update_first :: "('a \<Rightarrow> bool) \<Rightarrow> ('a \<Rightarrow> 'a) \<Rightarrow> 'a list \<Rightarrow> 'a list" where
  "update_first p f [] = []"
| "update_first p f (x # xs) = (if p x then f x # xs else x # update_first p f xs)"

text \<open>Lines 266-267: every remaining item of the record is set on the cell.\<close>

definition setattr_items :: "Cell \<Rightarrow> pydict \<Rightarrow> Cell" where
  "setattr_items c items = c\<lparr>attrs := foldl (\<lambda>a kv. setattr a (fst kv) (snd kv)) (attrs c) items\<rparr>"

definition assign_cell :: "Station \<Rightarrow> pyval \<Rightarrow> pyval \<Rightarrow> pyval \<Rightarrow> pydict \<Rightarrow> Station" where
  "assign_cell self sl l w items =
     self\<lparr>super_layers :=
       update_first (\<lambda>s. eq_number (sl_number s) sl)
         (\<lambda>s. s\<lparr>layers :=
            update_first (\<lambda>y. eq_number (layer_number y) l)
              (\<lambda>y. y\<lparr>cells :=
                 update_first (\<lambda>c. eq_number (cell_number c) w)
                   (\<lambda>c. setattr_items c items) (cells y)\<rparr>)
              (layers s)\<rparr>)
         (super_layers self)\<rparr>"

text \<open>
  The body of the loop of \<^verbatim>\<open>Station.set_cell_attrs\<close> (lines 251-267) on one record:
  the station and the warnings emitted so far, after the record, or the error raised.
  Every raise of the body comes before its first \<^verbatim>\<open>setattr\<close> on a cell, so an error
  leaves the state as it was before the record. \<^verbatim>\<open>.cell\<close> on the \<^verbatim>\<open>None\<close> that
  \<^verbatim>\<open>layer(l)\<close> returned raises; \<^verbatim>\<open>setattr\<close> on the \<^verbatim>\<open>None\<close> that
  \<^verbatim>\<open>cell(w)\<close> returned raises at the first remaining item, if there is one.
\<close>

definition set_cell_attrs_item ::
  "Station \<times> warning list \<Rightarrow> pydict \<Rightarrow> error + Station \<times> warning list" where
  "set_cell_attrs_item state info_item =
     (let self = fst state; warnings = snd state;
          (sl, d1) = pop ''sl'' info_item;
          (l, d2) = pop ''l'' d1;
          (w, d3) = pop ''w'' d2
      in if \<not> all_py [sl, l, w] then
           Inl (ValueError
             ''The drift cell information must contain the super layer, layer, and wire identifiers.'')
         else
           (case super_layer self sl of
              None \<Rightarrow>
                Inr (self, warnings @
                  [SuperLayer_does_not_exist sl (wheel self) (sector self) (number self)])
            | Some found \<Rightarrow>
                (case layer found l of
                   None \<Rightarrow> Inl (AttributeError ''cell'')
                 | Some lay \<Rightarrow>
                     (case cell lay w of
                        None \<Rightarrow>
                          (case d3 of
                             [] \<Rightarrow> Inr (self, warnings)
                           | kv # _ \<Rightarrow> Inl (AttributeError (fst kv)))
                      | Some c \<Rightarrow> Inr (assign_cell self sl l w d3, warnings)))))"

text \<open>
  The loop over the records: the state reached and the error that stopped it, if any.
  What earlier records assigned stays assigned when a later record raises.
\<close>

fun set_cell_attrs_loop ::
  "Station \<times> warning list \<Rightarrow> pydict list \<Rightarrow> (Station \<times> warning list) \<times> error option" where
  "set_cell_attrs_loop state [] = (state, None)"
| "set_cell_attrs_loop state (info_item # info) =
     (case set_cell_attrs_item state info_item of
        Inl e \<Rightarrow> (state, Some e)
      | Inr state' \<Rightarrow> set_cell_attrs_loop state' info)"

text \<open>
  The argument of \<^verbatim>\<open>set_cell_attrs\<close>: a dict, a pandas DataFrame (given by its rows,
  what \<^verbatim>\<open>to_dict(orient="records")\<close> returns), a list of dicts, or anything else.
  The deep copies leave the caller's records alone, as a pure function does.
\<close>

datatype dt_info =
    Info_dict pydict
  | Info_DataFrame "pydict list"
  | Info_list "pydict list"
  | Info_other

definition set_cell_attrs ::
  "Station \<Rightarrow> dt_info \<Rightarrow> (Station \<times> warning list) \<times> error option" where
  "set_cell_attrs self info =
     (case info of
        Info_dict d \<Rightarrow> set_cell_attrs_loop (self, []) [d]
      | Info_DataFrame rows \<Rightarrow> set_cell_attrs_loop (self, []) rows
      | Info_list ds \<Rightarrow> set_cell_attrs_loop (self, []) ds
      | Info_other \<Rightarrow>
          ((self, []), Some (TypeError
            ''The drift time information must be a dictionary, a list of dictionaries, or a pandas DataFrame.'')))"

section \<open>Station construction\<close>

text \<open>
  \<^verbatim>\<open>Station.__init__\<close> (lines 46-62): the geometry lookups made, the warnings emitted,
  and the station or the error raised. An error leaves no station behind.
\<close>

definition Station_init ::
  "geometry_source \<Rightarrow> int \<Rightarrow> int \<Rightarrow> int \<Rightarrow> dt_info option \<Rightarrow>
     lookup list \<times> warning list \<times> (error + Station)" where
  "Station_init g wheel' sector' station' info =
     (case wheel_setter wheel' of
        Inl e \<Rightarrow> ([], [], Inl e)
      | Inr wh \<Rightarrow>
     (case sector_setter sector' of
        Inl e \<Rightarrow> ([], [], Inl e)
      | Inr sec \<Rightarrow>
     (case number_setter station' of
        Inl e \<Rightarrow> ([], [], Inl e)
      | Inr st \<Rightarrow>
     (let rid = get_rawId g wheel' sector' station';
          looked = [Lookup_rawId wheel' sector' station', Lookup_LocalPosition rid,
                    Lookup_GlobalPosition rid, Lookup_NormalVector rid, Lookup_Bounds rid]
      in case setup_tranformer wh sec (get_NormalVector g rid) (get_GlobalPosition g rid) of
           Inl e \<Rightarrow> (looked, [], Inl e)
         | Inr tm \<Rightarrow>
             (let self = \<lparr>wheel = wh, sector = sec, number = st, rawId = rid,
                          local_center = get_LocalPosition g rid,
                          global_center = get_GlobalPosition g rid,
                          direction = get_NormalVector g rid,
                          bounds = get_Bounds g rid,
                          transformer = tm,
                          super_layers = build_station g rid\<rparr>;
                  looked' = looked @ [Lookup_element rid]
              in case info of
                   None \<Rightarrow> (looked', [], Inr self)
                 | Some dt \<Rightarrow>
                     (case set_cell_attrs self dt of
                        ((self', warnings), None) \<Rightarrow> (looked', warnings, Inr self')
                      | ((self', warnings), Some e) \<Rightarrow> (looked', warnings, Inl e)))))))"

text \<open>What is left of a record once lines 251-253 have popped the three identifiers.\<close>

definition remaining_items :: "pydict \<Rightarrow> pydict" where
  "remaining_items r = snd (pop ''w'' (snd (pop ''l'' (snd (pop ''sl'' r)))))"

section \<open>A concrete chamber\<close>

text \<open>
  A geometry source with one chamber: its normal is horizontal, and it has one super
  layer (number 1) of one layer (number 1) of one cell (wire 10). \<open>example_station\<close>
  is the station built from it for wheel 0, sector 4, station 2.
\<close>

definition example_geometry :: geometry_source where
  "example_geometry =
     \<lparr>get_rawId = (\<lambda>wh sec st. 7),
      get_LocalPosition = (\<lambda>rid. (0, 0, 0)),
      get_GlobalPosition = (\<lambda>rid. (1, 2, 3)),
      get_NormalVector = (\<lambda>rid. (0, 1, 0)),
      get_Bounds = (\<lambda>rid. (4, 5, 6)),
      iter_SuperLayer = (\<lambda>rid. [8]),
      SuperLayer_init = (\<lambda>rid. \<lparr>sl_number = 1,
         layers = [\<lparr>layer_number = 1, cells = [\<lparr>cell_number = 10, attrs = []\<rparr>]\<rparr>]\<rparr>)\<rparr>"

definition example_station :: Station where
  "example_station =
     \<lparr>wheel = 0, sector = 4, number = 2, rawId = 7,
      local_center = (0, 0, 0), global_center = (1, 2, 3),
      direction = (0, 1, 0), bounds = (4, 5, 6),
      transformer =
        \<lparr>initial_frame = ''Station'',
         transforms =
           [((''Station'', ''CMS''), (((1, 0, 0), (0, 0, 1), (0, - 1, 0)), (1, 2, 3))),
            ((''Station'', ''StationNvPhi''), (((- 1, 0, 0), (0, 1, 0), (0, 0, - 1)), (0, 0, 0))),
            ((''Station'', ''StationNvEta''), (((1, 0, 0), (0, - 1, 0), (0, 0, - 1)), (0, 0, 0)))]\<rparr>,
      super_layers =
        [\<lparr>sl_number = 1,
          layers = [\<lparr>layer_number = 1, cells = [\<lparr>cell_number = 10, attrs = []\<rparr>]\<rparr>]\<rparr>]\<rparr>"

definition example_lookups :: "lookup list" where
  "example_lookups =
     [Lookup_rawId 0 4 2, Lookup_LocalPosition 7, Lookup_GlobalPosition 7,
      Lookup_NormalVector 7, Lookup_Bounds 7, Lookup_element 7]"

text \<open>
  The same chamber with a normal along the z axis, and the station built from it.
\<close>

definition axial_geometry :: geometry_source where
  "axial_geometry = example_geometry\<lparr>get_NormalVector := (\<lambda>rid. (0, 0, 1))\<rparr>"

definition axial_station :: Station where
  "axial_station =
     example_station\<lparr>direction := (0, 0, 1),
       transformer :=
        \<lparr>initial_frame = ''Station'',
         transforms =
           [((''Station'', ''CMS''), (((0, 0, 0), (0, 0, 0), (0, - 1, 1)), (1, 2, 3))),
            ((''Station'', ''StationNvPhi''), (((- 1, 0, 0), (0, 1, 0), (0, 0, - 1)), (0, 0, 0))),
            ((''Station'', ''StationNvEta''), (((1, 0, 0), (0, - 1, 0), (0, 0, - 1)), (0, 0, 0)))]\<rparr>\<rparr>"

text \<open>
  The station built from \<open>example_geometry\<close> for wheel 2, sector 1, station 1, where the
  face orientation is +1.
\<close>

definition forward_station :: Station where
  "forward_station =
     example_station\<lparr>wheel := 2, sector := 1, number := 1,
       transformer :=
        \<lparr>initial_frame = ''Station'',
         transforms =
           [((''Station'', ''CMS''), (((- 1, 0, 0), (0, 0, 1), (0, 1, 0)), (1, 2, 3))),
            ((''Station'', ''StationNvPhi''), (((1, 0, 0), (0, - 1, 0), (0, 0, - 1)), (0, 0, 0))),
            ((''Station'', ''StationNvEta''), (((- 1, 0, 0), (0, 1, 0), (0, 0, - 1)), (0, 0, 0)))]\<rparr>\<rparr>"

definition forward_lookups :: "lookup list" where
  "forward_lookups =
     [Lookup_rawId 2 1 1, Lookup_LocalPosition 7, Lookup_GlobalPosition 7,
      Lookup_NormalVector 7, Lookup_Bounds 7, Lookup_element 7]"

section \<open>Auxiliary facts\<close>

lemma face_orientation_cases: "face_orientation w s = 1 \<or> face_orientation w s = - 1"
  by (simp add: face_orientation_def)

lemma setup_tranformer_eq:
  "setup_tranformer w s (dx, dy, dz) gc =
     Inr \<lparr>initial_frame = ''Station'',
          transforms =
            [((''Station'', ''CMS''),
              (T (array_rows (cross (times_int (array 0 0 1) (face_orientation w s)) (dx, dy, dz))
                      (times_int (array 0 0 1) (face_orientation w s)) (dx, dy, dz)), gc)),
             ((''Station'', ''StationNvPhi''),
              (T (array_rows (cross (times_int (array 0 (- 1) 0) (face_orientation w s)) (array 0 0 (- 1)))
                      (times_int (array 0 (- 1) 0) (face_orientation w s)) (array 0 0 (- 1))), (0, 0, 0))),
             ((''Station'', ''StationNvEta''),
              (T (array_rows (times_int (array (- 1) 0 0) (face_orientation w s))
                      (cross (array 0 0 (- 1)) (times_int (array (- 1) 0 0) (face_orientation w s)))
                      (array 0 0 (- 1))), (0, 0, 0)))]\<rparr>"
  by (simp add: setup_tranformer_def add_def TransformManager_init_def perpendicular_to_vectors_def Let_def)

lemma set_cell_attrs_item_frame:
  assumes "set_cell_attrs_item (st, ws) r = Inr (st', ws')"
  shows "wheel st' = wheel st \<and> sector st' = sector st \<and> number st' = number st \<and>
         rawId st' = rawId st \<and> direction st' = direction st \<and>
         global_center st' = global_center st \<and> transformer st' = transformer st"
  using assms
  by (auto simp: set_cell_attrs_item_def Let_def assign_cell_def
           split: prod.splits if_splits option.splits list.splits)

lemma set_cell_attrs_loop_frame:
  assumes "set_cell_attrs_loop (st, ws) rs = ((st', ws'), err)"
  shows "wheel st' = wheel st \<and> sector st' = sector st \<and> number st' = number st \<and>
         rawId st' = rawId st \<and> direction st' = direction st \<and>
         global_center st' = global_center st \<and> transformer st' = transformer st"
  using assms
proof (induction rs arbitrary: st ws)
  case Nil
  then show ?case by simp
next
  case (Cons r rs)
  show ?case
  proof (cases "set_cell_attrs_item (st, ws) r")
    case (Inl e)
    with Cons.prems show ?thesis by simp
  next
    case (Inr s1)
    obtain st1 ws1 where s1: "s1 = (st1, ws1)" by (cases s1)
    from Cons.prems Inr s1 have "set_cell_attrs_loop (st1, ws1) rs = ((st', ws'), err)" by simp
    from Cons.IH[OF this] set_cell_attrs_item_frame[OF Inr[unfolded s1]]
    show ?thesis by simp
  qed
qed

lemma set_cell_attrs_frame:
  assumes "set_cell_attrs st info = ((st', ws'), err)"
  shows "wheel st' = wheel st \<and> sector st' = sector st \<and> number st' = number st \<and>
         rawId st' = rawId st \<and> direction st' = direction st \<and>
         global_center st' = global_center st \<and> transformer st' = transformer st"
proof (cases info)
  case (Info_dict d)
  with assms have "set_cell_attrs_loop (st, []) [d] = ((st', ws'), err)"
    by (simp only: set_cell_attrs_def dt_info.case)
  then show ?thesis by (rule set_cell_attrs_loop_frame)
next
  case (Info_DataFrame rows)
  with assms have "set_cell_attrs_loop (st, []) rows = ((st', ws'), err)"
    by (simp only: set_cell_attrs_def dt_info.case)
  then show ?thesis by (rule set_cell_attrs_loop_frame)
next
  case (Info_list ds)
  with assms have "set_cell_attrs_loop (st, []) ds = ((st', ws'), err)"
    by (simp only: set_cell_attrs_def dt_info.case)
  then show ?thesis by (rule set_cell_attrs_loop_frame)
next
  case Info_other
  with assms show ?thesis by (simp add: set_cell_attrs_def)
qed

lemma Station_init_Inr:
  assumes "Station_init g w s n info = (qs, ws, Inr st)"
  shows "- 2 \<le> w \<and> w \<le> 2 \<and> 1 \<le> s \<and> s \<le> 14 \<and> 1 \<le> n \<and> n \<le> 4 \<and>
         wheel st = w \<and> sector st = s \<and> number st = n \<and>
         rawId st = get_rawId g w s n \<and>
         direction st = get_NormalVector g (get_rawId g w s n) \<and>
         global_center st = get_GlobalPosition g (get_rawId g w s n) \<and>
         setup_tranformer w s (get_NormalVector g (get_rawId g w s n))
           (get_GlobalPosition g (get_rawId g w s n)) = Inr (transformer st)"
proof -
  let ?rid = "get_rawId g w s n"
  from assms have rng: "- 2 \<le> w \<and> w \<le> 2 \<and> 1 \<le> s \<and> s \<le> 14 \<and> 1 \<le> n \<and> n \<le> 4"
    by (auto simp: Station_init_def wheel_setter_def sector_setter_def number_setter_def
             split: if_splits)
  obtain tm where tm: "setup_tranformer w s (get_NormalVector g ?rid) (get_GlobalPosition g ?rid) = Inr tm"
    by (cases "get_NormalVector g ?rid") (auto simp: setup_tranformer_eq)
  define self where "self = \<lparr>wheel = w, sector = s, number = n, rawId = ?rid,
                          local_center = get_LocalPosition g ?rid,
                          global_center = get_GlobalPosition g ?rid,
                          direction = get_NormalVector g ?rid,
                          bounds = get_Bounds g ?rid,
                          transformer = tm,
                          super_layers = build_station g ?rid\<rparr>"
  have "wheel st = wheel self \<and> sector st = sector self \<and> number st = number self \<and>
         rawId st = rawId self \<and> direction st = direction self \<and>
         global_center st = global_center self \<and> transformer st = transformer self"
  proof (cases info)
    case None
    with assms rng tm have "st = self"
      by (simp add: Station_init_def wheel_setter_def sector_setter_def number_setter_def
            Let_def self_def)
    then show ?thesis by simp
  next
    case (Some dt)
    obtain st1 ws1 err where r: "set_cell_attrs self dt = ((st1, ws1), err)"
      by (metis prod.exhaust)
    with assms rng tm Some have "st = st1"
      by (cases err) (simp_all add: Station_init_def wheel_setter_def sector_setter_def
            number_setter_def Let_def self_def)
    with set_cell_attrs_frame[OF r] show ?thesis by simp
  qed
  with rng tm show ?thesis by (simp add: self_def)
qed

lemma map_of_filter_other:
  "k' \<noteq> k \<Longrightarrow> map_of (filter (\<lambda>kv. fst kv \<noteq> k) d) k' = map_of d k'"
  by (induction d) auto

lemma item_missing:
  assumes "map_of r ''sl'' = None \<or> map_of r ''l'' = None \<or> map_of r ''w'' = None"
  shows "set_cell_attrs_item s r = Inl (ValueError
             ''The drift cell information must contain the super layer, layer, and wire identifiers.'')"
  using assms
  by (auto simp: set_cell_attrs_item_def pop_def Let_def all_py_def map_of_filter_other
           split: option.splits)

lemma item_present:
  assumes "map_of r ''sl'' = Some sl" "map_of r ''l'' = Some l" "map_of r ''w'' = Some w"
  shows "set_cell_attrs_item (self, warnings) r =
      (if \<not> all_py [sl, l, w] then
           Inl (ValueError
             ''The drift cell information must contain the super layer, layer, and wire identifiers.'')
         else
           (case super_layer self sl of
              None \<Rightarrow>
                Inr (self, warnings @
                  [SuperLayer_does_not_exist sl (wheel self) (sector self) (number self)])
            | Some found \<Rightarrow>
                (case layer found l of
                   None \<Rightarrow> Inl (AttributeError ''cell'')
                 | Some lay \<Rightarrow>
                     (case cell lay w of
                        None \<Rightarrow>
                          (case remaining_items r of
                             [] \<Rightarrow> Inr (self, warnings)
                           | kv # _ \<Rightarrow> Inl (AttributeError (fst kv)))
                      | Some c \<Rightarrow> Inr (assign_cell self sl l w (remaining_items r), warnings)))))"
proof -
  have a: "map_of (filter (\<lambda>kv. fst kv \<noteq> ''sl'') r) ''l'' = Some l"
    using assms(2) by (simp add: map_of_filter_other)
  have b: "map_of (filter (\<lambda>kv. fst kv \<noteq> ''l'') (filter (\<lambda>kv. fst kv \<noteq> ''sl'') r)) ''w'' = Some w"
    using assms(3) by (simp add: map_of_filter_other del: filter_filter)
  show ?thesis
    by (simp add: set_cell_attrs_item_def pop_def Let_def assms(1) a b remaining_items_def
          del: filter_filter split: option.split list.split)
qed

lemma loop_append:
  "set_cell_attrs_loop s (pre @ rest) =
     (case set_cell_attrs_loop s pre of
        (s', None) \<Rightarrow> set_cell_attrs_loop s' rest
      | (s', Some e) \<Rightarrow> (s', Some e))"
  by (induction pre arbitrary: s) (auto split: sum.splits)

lemma column_T_array_rows:
  "column (T (array_rows a b c)) 0 = a"
  "column (T (array_rows a b c)) (Suc 0) = b"
  "column (T (array_rows a b c)) 2 = c"
  by (cases a; cases b; cases c; simp add: array_rows_def)+

lemma registered_setup_tranformer:
  assumes "setup_tranformer w s d gc = Inr tm"
  shows "registered tm ''Station'' ''CMS'' =
           Some (T (array_rows (cross (times_int (array 0 0 1) (face_orientation w s)) d)
                      (times_int (array 0 0 1) (face_orientation w s)) d), gc)"
    and "registered tm ''Station'' ''StationNvPhi'' =
           Some (T (array_rows (cross (times_int (array 0 (- 1) 0) (face_orientation w s)) (array 0 0 (- 1)))
                      (times_int (array 0 (- 1) 0) (face_orientation w s)) (array 0 0 (- 1))), (0, 0, 0))"
    and "registered tm ''Station'' ''StationNvEta'' =
           Some (T (array_rows (times_int (array (- 1) 0 0) (face_orientation w s))
                      (cross (array 0 0 (- 1)) (times_int (array (- 1) 0 0) (face_orientation w s)))
                      (array 0 0 (- 1))), (0, 0, 0))"
proof -
  obtain dx dy dz where d: "d = (dx, dy, dz)" by (cases d)
  from assms have tm: "tm = \<lparr>initial_frame = ''Station'',
          transforms =
            [((''Station'', ''CMS''),
              (T (array_rows (cross (times_int (array 0 0 1) (face_orientation w s)) (dx, dy, dz))
                      (times_int (array 0 0 1) (face_orientation w s)) (dx, dy, dz)), gc)),
             ((''Station'', ''StationNvPhi''),
              (T (array_rows (cross (times_int (array 0 (- 1) 0) (face_orientation w s)) (array 0 0 (- 1)))
                      (times_int (array 0 (- 1) 0) (face_orientation w s)) (array 0 0 (- 1))), (0, 0, 0))),
             ((''Station'', ''StationNvEta''),
              (T (array_rows (times_int (array (- 1) 0 0) (face_orientation w s))
                      (cross (array 0 0 (- 1)) (times_int (array (- 1) 0 0) (face_orientation w s)))
                      (array 0 0 (- 1))), (0, 0, 0)))]\<rparr>"
    unfolding d setup_tranformer_eq by simp
  show "registered tm ''Station'' ''CMS'' =
           Some (T (array_rows (cross (times_int (array 0 0 1) (face_orientation w s)) d)
                      (times_int (array 0 0 1) (face_orientation w s)) d), gc)"
    by (simp add: tm d registered_def)
  show "registered tm ''Station'' ''StationNvPhi'' =
           Some (T (array_rows (cross (times_int (array 0 (- 1) 0) (face_orientation w s)) (array 0 0 (- 1)))
                      (times_int (array 0 (- 1) 0) (face_orientation w s)) (array 0 0 (- 1))), (0, 0, 0))"
    by (simp add: tm registered_def)
  show "registered tm ''Station'' ''StationNvEta'' =
           Some (T (array_rows (times_int (array (- 1) 0 0) (face_orientation w s))
                      (cross (array 0 0 (- 1)) (times_int (array (- 1) 0 0) (face_orientation w s)))
                      (array 0 0 (- 1))), (0, 0, 0))"
    by (simp add: tm registered_def)
qed

lemma Station_init_example:
  "Station_init example_geometry 0 4 2 None = (example_lookups, [], Inr example_station)"
  by (simp add: Station_init_def example_geometry_def example_station_def example_lookups_def
        wheel_setter_def sector_setter_def number_setter_def setup_tranformer_eq Let_def
        build_station_def add_super_layer_def array_def face_orientation_def array_rows_def)

lemma Station_init_in_range:
  assumes "- 2 \<le> w" "w \<le> 2" "1 \<le> s" "s \<le> 14" "1 \<le> n" "n \<le> 4"
  shows "\<exists>st. Station_init g w s n None =
           ([Lookup_rawId w s n, Lookup_LocalPosition (get_rawId g w s n),
             Lookup_GlobalPosition (get_rawId g w s n), Lookup_NormalVector (get_rawId g w s n),
             Lookup_Bounds (get_rawId g w s n), Lookup_element (get_rawId g w s n)], [], Inr st)"
proof -
  obtain dx dy dz where d: "get_NormalVector g (get_rawId g w s n) = (dx, dy, dz)"
    by (cases "get_NormalVector g (get_rawId g w s n)")
  show ?thesis
    using assms
    by (simp add: Station_init_def wheel_setter_def sector_setter_def number_setter_def d
          setup_tranformer_eq Let_def)
qed

lemma Station_init_axial:
  "Station_init axial_geometry 0 4 2 None = (example_lookups, [], Inr axial_station)"
  by (simp add: Station_init_def axial_geometry_def axial_station_def example_geometry_def
        example_station_def example_lookups_def
        wheel_setter_def sector_setter_def number_setter_def setup_tranformer_eq Let_def
        build_station_def add_super_layer_def array_def face_orientation_def array_rows_def)

lemma orthonormal_natural_views:
  assumes "0 \<le> tol"
  shows "orthonormal_within tol
           (T (array_rows (cross (times_int (array 0 (- 1) 0) (face_orientation w s)) (array 0 0 (- 1)))
                      (times_int (array 0 (- 1) 0) (face_orientation w s)) (array 0 0 (- 1))))"
    and "orthonormal_within tol
           (T (array_rows (times_int (array (- 1) 0 0) (face_orientation w s))
                      (cross (array 0 0 (- 1)) (times_int (array (- 1) 0 0) (face_orientation w s)))
                      (array 0 0 (- 1))))"
  using assms face_orientation_cases[of w s]
  by (auto simp: orthonormal_within_def column_T_array_rows array_def Let_def)

lemma orthonormal_cms:
  assumes "0 \<le> tol"
  shows "orthonormal_within tol
           (T (array_rows (cross (times_int (array 0 0 1) (face_orientation w s)) (dx, dy, dz))
                      (times_int (array 0 0 1) (face_orientation w s)) (dx, dy, dz)))
         \<longleftrightarrow> \<bar>dz\<bar> \<le> tol \<and> \<bar>dx * dx + dy * dy + dz * dz - 1\<bar> \<le> tol \<and>
              \<bar>dx * dx + dy * dy - 1\<bar> \<le> tol"
proof -
  have f: "face_orientation w s = 1 \<or> face_orientation w s = - 1"
    by (rule face_orientation_cases)
  then show ?thesis
  proof
    assume "face_orientation w s = 1"
    with assms show ?thesis
      by (auto simp: orthonormal_within_def column_T_array_rows array_def Let_def algebra_simps)
  next
    assume "face_orientation w s = - 1"
    with assms show ?thesis
      by (auto simp: orthonormal_within_def column_T_array_rows array_def Let_def algebra_simps)
  qed
qed

lemma next_or_None_None: "next_or_None p xs = None \<longleftrightarrow> (\<forall>x\<in>set xs. \<not> p x)"
proof -
  have "next_or_None p xs = None \<longleftrightarrow> filter p xs = []"
    by (simp add: next_or_None_def split: list.split)
  then show ?thesis by (simp add: filter_empty_conv)
qed

lemma next_or_None_Some:
  "next_or_None p xs = Some x \<Longrightarrow>
     \<exists>pre post. xs = pre @ x # post \<and> p x \<and> (\<forall>y\<in>set pre. \<not> p y)"
proof (induction xs)
  case Nil
  then show ?case by (simp add: next_or_None_def)
next
  case (Cons a xs)
  show ?case
  proof (cases "p a")
    case True
    with Cons.prems have "a = x" by (simp add: next_or_None_def)
    with True have "a # xs = [] @ x # xs \<and> p x \<and> (\<forall>y\<in>set []. \<not> p y)" by simp
    then show ?thesis by blast
  next
    case False
    with Cons.prems have "next_or_None p xs = Some x" by (simp add: next_or_None_def)
    from Cons.IH[OF this] obtain pre post
      where "xs = pre @ x # post" "p x" "\<forall>y\<in>set pre. \<not> p y" by blast
    with False have "a # xs = (a # pre) @ x # post \<and> p x \<and> (\<forall>y\<in>set (a # pre). \<not> p y)"
      by simp
    then show ?thesis by blast
  qed
qed

lemma map_update_first:
  "(\<And>x. g (f x) = g x) \<Longrightarrow> map g (update_first p f xs) = map g xs"
  by (induction xs) auto

lemma assign_cell_numbers:
  "map sl_number (super_layers (assign_cell st sl l w items)) = map sl_number (super_layers st)"
  by (simp add: assign_cell_def map_update_first)

lemma set_cell_attrs_item_numbers:
  assumes "set_cell_attrs_item (st, ws) r = Inr (st', ws')"
  shows "map sl_number (super_layers st') = map sl_number (super_layers st)"
  using assms
  by (auto simp: set_cell_attrs_item_def Let_def assign_cell_numbers
           split: prod.splits if_splits option.splits list.splits)

lemma set_cell_attrs_loop_numbers:
  assumes "set_cell_attrs_loop (st, ws) rs = ((st', ws'), err)"
  shows "map sl_number (super_layers st') = map sl_number (super_layers st)"
  using assms
proof (induction rs arbitrary: st ws)
  case Nil
  then show ?case by simp
next
  case (Cons r rs)
  show ?case
  proof (cases "set_cell_attrs_item (st, ws) r")
    case (Inl e)
    with Cons.prems show ?thesis by simp
  next
    case (Inr s1)
    obtain st1 ws1 where s1: "s1 = (st1, ws1)" by (cases s1)
    from Cons.prems Inr s1 have "set_cell_attrs_loop (st1, ws1) rs = ((st', ws'), err)" by simp
    from Cons.IH[OF this] set_cell_attrs_item_numbers[OF Inr[unfolded s1]]
    show ?thesis by simp
  qed
qed

lemma super_layer_None_numbers:
  "super_layer st n = None \<longleftrightarrow> (\<forall>k\<in>set (map sl_number (super_layers st)). \<not> eq_number k n)"
  by (simp add: super_layer_def next_or_None_None)

lemma loop_reaches:
  assumes "set_cell_attrs_loop s pre = (s', None)"
  shows "set_cell_attrs_loop s (pre @ r # post) =
           (case set_cell_attrs_item s' r of
              Inl e \<Rightarrow> (s', Some e)
            | Inr s'' \<Rightarrow> set_cell_attrs_loop s'' post)"
  using assms by (simp add: loop_append)

lemma item_falsy:
  assumes "map_of r ''sl'' = Some sl" "map_of r ''l'' = Some l" "map_of r ''w'' = Some w"
      and "\<not> truthy sl \<or> \<not> truthy l \<or> \<not> truthy w"
  shows "set_cell_attrs_item (st, ws) r = Inl (ValueError
           ''The drift cell information must contain the super layer, layer, and wire identifiers.'')"
  using assms(4) by (auto simp: item_present[OF assms(1-3)] all_py_def)

lemma set_cell_attrs_shapes:
  "set_cell_attrs st (Info_list rs) = set_cell_attrs_loop (st, []) rs"
  "set_cell_attrs st (Info_DataFrame rs) = set_cell_attrs_loop (st, []) rs"
  "set_cell_attrs st (Info_dict r) = set_cell_attrs_loop (st, []) [r]"
  by (simp_all add: set_cell_attrs_def)

lemma Station_init_forward:
  "Station_init example_geometry 2 1 1 None = (forward_lookups, [], Inr forward_station)"
  by (simp add: Station_init_def example_geometry_def example_station_def forward_station_def
        forward_lookups_def
        wheel_setter_def sector_setter_def number_setter_def setup_tranformer_eq Let_def
        build_station_def add_super_layer_def array_def face_orientation_def array_rows_def)

lemma registered_entries:
  assumes "setup_tranformer w s (dx, dy, dz) gc = Inr tm"
  shows "registered tm ''Station'' ''CMS'' =
           Some (((- (real_of_int (face_orientation w s) * dy), 0, dx),
                  (real_of_int (face_orientation w s) * dx, 0, dy),
                  (0, real_of_int (face_orientation w s), dz)), gc)"
    and "registered tm ''Station'' ''StationNvPhi'' =
           Some (((real_of_int (face_orientation w s), 0, 0),
                  (0, - real_of_int (face_orientation w s), 0),
                  (0, 0, - 1)), (0, 0, 0))"
    and "registered tm ''Station'' ''StationNvEta'' =
           Some (((- real_of_int (face_orientation w s), 0, 0),
                  (0, real_of_int (face_orientation w s), 0),
                  (0, 0, - 1)), (0, 0, 0))"
  using registered_setup_tranformer[OF assms]
  by (simp_all add: array_def array_rows_def)

lemma Station_init_registered:
  assumes "Station_init g w s n info = (qs, ws, Inr st)"
      and "get_NormalVector g (get_rawId g w s n) = (dx, dy, dz)"
  shows "registered (transformer st) ''Station'' ''CMS'' =
           Some (((- (real_of_int (face_orientation w s) * dy), 0, dx),
                  (real_of_int (face_orientation w s) * dx, 0, dy),
                  (0, real_of_int (face_orientation w s), dz)),
                 get_GlobalPosition g (get_rawId g w s n))"
    and "registered (transformer st) ''Station'' ''StationNvPhi'' =
           Some (((real_of_int (face_orientation w s), 0, 0),
                  (0, - real_of_int (face_orientation w s), 0),
                  (0, 0, - 1)), (0, 0, 0))"
    and "registered (transformer st) ''Station'' ''StationNvEta'' =
           Some (((- real_of_int (face_orientation w s), 0, 0),
                  (0, real_of_int (face_orientation w s), 0),
                  (0, 0, - 1)), (0, 0, 0))"
    and "direction st = (dx, dy, dz)"
    and "global_center st = get_GlobalPosition g (get_rawId g w s n)"
    and "wheel st = w" and "sector st = s"
proof -
  note init = Station_init_Inr[OF assms(1)]
  from init have tm: "setup_tranformer w s (dx, dy, dz)
                        (get_GlobalPosition g (get_rawId g w s n)) = Inr (transformer st)"
    by (simp add: assms(2))
  note reg = registered_entries[OF tm]
  show "registered (transformer st) ''Station'' ''CMS'' =
           Some (((- (real_of_int (face_orientation w s) * dy), 0, dx),
                  (real_of_int (face_orientation w s) * dx, 0, dy),
                  (0, real_of_int (face_orientation w s), dz)),
                 get_GlobalPosition g (get_rawId g w s n))"
    by (rule reg(1))
  show "registered (transformer st) ''Station'' ''StationNvPhi'' =
           Some (((real_of_int (face_orientation w s), 0, 0),
                  (0, - real_of_int (face_orientation w s), 0),
                  (0, 0, - 1)), (0, 0, 0))"
    by (rule reg(2))
  show "registered (transformer st) ''Station'' ''StationNvEta'' =
           Some (((- real_of_int (face_orientation w s), 0, 0),
                  (0, real_of_int (face_orientation w s), 0),
                  (0, 0, - 1)), (0, 0, 0))"
    by (rule reg(3))
  show "direction st = (dx, dy, dz)" using init assms(2) by simp
  show "global_center st = get_GlobalPosition g (get_rawId g w s n)" using init by simp
  show "wheel st = w" using init by simp
  show "sector st = s" using init by simp
qed

section \<open>Face orientation and the registered rotations\<close>

text \<open>
  C1. For every wheel in [-2, 2] and sector in [1, 14] (and station number in [1, 4])
  the face-orientation sign is -1 for a negative wheel, +1 for a positive wheel, and
  for wheel 0 it is -1 in the sectors 1, 4, 5, 8, 9, 12, 13 and +1 in the others;
  construction returns a station, and in every station it returns this one sign is the
  one in the three registered rotations: the y axis (0, 0, sign) of the rotation to CMS,
  the y axis (0, -sign, 0) of the phi natural view and the x axis (-sign, 0, 0) of the
  eta natural view.
\<close>

theorem face_orientation_in_registered_rotations:
  assumes "- 2 \<le> w" "w \<le> 2" "1 \<le> s" "s \<le> 14" "1 \<le> n" "n \<le> 4"
  shows "(w < 0 \<longrightarrow> face_orientation w s = - 1) \<and>
         (0 < w \<longrightarrow> face_orientation w s = 1) \<and>
         (w = 0 \<and> s \<in> {1, 4, 5, 8, 9, 12, 13} \<longrightarrow> face_orientation w s = - 1) \<and>
         (w = 0 \<and> s \<notin> {1, 4, 5, 8, 9, 12, 13} \<longrightarrow> face_orientation w s = 1) \<and>
         (\<exists>st. Station_init g w s n None =
                 ([Lookup_rawId w s n, Lookup_LocalPosition (get_rawId g w s n),
                   Lookup_GlobalPosition (get_rawId g w s n),
                   Lookup_NormalVector (get_rawId g w s n),
                   Lookup_Bounds (get_rawId g w s n), Lookup_element (get_rawId g w s n)],
                  [], Inr st)) \<and>
         (\<forall>info qs ws st.
            Station_init g w s n info = (qs, ws, Inr st) \<longrightarrow>
            (\<exists>Rcms tcms Rphi Reta.
               registered (transformer st) ''Station'' ''CMS'' = Some (Rcms, tcms) \<and>
               registered (transformer st) ''Station'' ''StationNvPhi'' = Some (Rphi, (0, 0, 0)) \<and>
               registered (transformer st) ''Station'' ''StationNvEta'' = Some (Reta, (0, 0, 0)) \<and>
               column Rcms 1 = (0, 0, real_of_int (face_orientation w s)) \<and>
               column Rphi 1 = (0, - real_of_int (face_orientation w s), 0) \<and>
               column Reta 0 = (- real_of_int (face_orientation w s), 0, 0)))"
proof -
  have sign: "(w < 0 \<longrightarrow> face_orientation w s = - 1) \<and>
         (0 < w \<longrightarrow> face_orientation w s = 1) \<and>
         (w = 0 \<and> s \<in> {1, 4, 5, 8, 9, 12, 13} \<longrightarrow> face_orientation w s = - 1) \<and>
         (w = 0 \<and> s \<notin> {1, 4, 5, 8, 9, 12, 13} \<longrightarrow> face_orientation w s = 1)"
    by (simp add: face_orientation_def)
  obtain dx dy dz where d: "get_NormalVector g (get_rawId g w s n) = (dx, dy, dz)"
    by (cases "get_NormalVector g (get_rawId g w s n)")
  have built: "\<forall>info qs ws st.
            Station_init g w s n info = (qs, ws, Inr st) \<longrightarrow>
            (\<exists>Rcms tcms Rphi Reta.
               registered (transformer st) ''Station'' ''CMS'' = Some (Rcms, tcms) \<and>
               registered (transformer st) ''Station'' ''StationNvPhi'' = Some (Rphi, (0, 0, 0)) \<and>
               registered (transformer st) ''Station'' ''StationNvEta'' = Some (Reta, (0, 0, 0)) \<and>
               column Rcms 1 = (0, 0, real_of_int (face_orientation w s)) \<and>
               column Rphi 1 = (0, - real_of_int (face_orientation w s), 0) \<and>
               column Reta 0 = (- real_of_int (face_orientation w s), 0, 0))"
  proof (intro allI impI)
    fix info qs ws st
    assume init: "Station_init g w s n info = (qs, ws, Inr st)"
    note reg = Station_init_registered(1-3)[OF init d]
    show "\<exists>Rcms tcms Rphi Reta.
               registered (transformer st) ''Station'' ''CMS'' = Some (Rcms, tcms) \<and>
               registered (transformer st) ''Station'' ''StationNvPhi'' = Some (Rphi, (0, 0, 0)) \<and>
               registered (transformer st) ''Station'' ''StationNvEta'' = Some (Reta, (0, 0, 0)) \<and>
               column Rcms 1 = (0, 0, real_of_int (face_orientation w s)) \<and>
               column Rphi 1 = (0, - real_of_int (face_orientation w s), 0) \<and>
               column Reta 0 = (- real_of_int (face_orientation w s), 0, 0)"
    proof (intro exI conjI)
      show "registered (transformer st) ''Station'' ''CMS'' =
           Some (((- (real_of_int (face_orientation w s) * dy), 0, dx),
                  (real_of_int (face_orientation w s) * dx, 0, dy),
                  (0, real_of_int (face_orientation w s), dz)),
                 get_GlobalPosition g (get_rawId g w s n))"
        by (rule reg(1))
      show "registered (transformer st) ''Station'' ''StationNvPhi'' =
           Some (((real_of_int (face_orientation w s), 0, 0),
                  (0, - real_of_int (face_orientation w s), 0),
                  (0, 0, - 1)), (0, 0, 0))"
        by (rule reg(2))
      show "registered (transformer st) ''Station'' ''StationNvEta'' =
           Some (((- real_of_int (face_orientation w s), 0, 0),
                  (0, real_of_int (face_orientation w s), 0),
                  (0, 0, - 1)), (0, 0, 0))"
        by (rule reg(3))
    qed simp_all
  qed
  from sign Station_init_in_range[OF assms, of g] built show ?thesis by blast
qed

theorem face_orientation_in_registered_rotations_witness:
  "Station_init example_geometry 0 4 2 None = (example_lookups, [], Inr example_station) \<and>
   face_orientation 0 4 = - 1 \<and>
   map_option (\<lambda>tr. column (fst tr) 1) (registered (transformer example_station) ''Station'' ''CMS'')
     = Some (0, 0, - 1) \<and>
   map_option (\<lambda>tr. column (fst tr) 1) (registered (transformer example_station) ''Station'' ''StationNvPhi'')
     = Some (0, 1, 0) \<and>
   map_option (\<lambda>tr. column (fst tr) 0) (registered (transformer example_station) ''Station'' ''StationNvEta'')
     = Some (1, 0, 0) \<and>
   Station_init example_geometry 2 1 1 None = (forward_lookups, [], Inr forward_station) \<and>
   face_orientation 2 1 = 1 \<and>
   map_option (\<lambda>tr. column (fst tr) 1) (registered (transformer forward_station) ''Station'' ''CMS'')
     = Some (0, 0, 1) \<and>
   map_option (\<lambda>tr. column (fst tr) 1) (registered (transformer forward_station) ''Station'' ''StationNvPhi'')
     = Some (0, - 1, 0) \<and>
   map_option (\<lambda>tr. column (fst tr) 0) (registered (transformer forward_station) ''Station'' ''StationNvEta'')
     = Some (- 1, 0, 0)"
proof -
  have neg: "face_orientation 0 4 = - 1" and pos: "face_orientation 2 1 = 1"
    by (simp_all add: face_orientation_def)
  have r1: "- 2 \<le> (0::int)" "(0::int) \<le> 2" "1 \<le> (4::int)" "(4::int) \<le> 14"
           "1 \<le> (2::int)" "(2::int) \<le> 4"
    by simp_all
  have r2: "- 2 \<le> (2::int)" "(2::int) \<le> 2" "1 \<le> (1::int)" "(1::int) \<le> 14"
           "1 \<le> (1::int)" "(1::int) \<le> 4"
    by simp_all
  have "\<exists>Rcms tcms Rphi Reta.
          registered (transformer example_station) ''Station'' ''CMS'' = Some (Rcms, tcms) \<and>
          registered (transformer example_station) ''Station'' ''StationNvPhi'' = Some (Rphi, (0, 0, 0)) \<and>
          registered (transformer example_station) ''Station'' ''StationNvEta'' = Some (Reta, (0, 0, 0)) \<and>
          column Rcms 1 = (0, 0, real_of_int (face_orientation 0 4)) \<and>
          column Rphi 1 = (0, - real_of_int (face_orientation 0 4), 0) \<and>
          column Reta 0 = (- real_of_int (face_orientation 0 4), 0, 0)"
    using face_orientation_in_registered_rotations[OF r1, of example_geometry]
          Station_init_example
    by blast
  then have a:
    "map_option (\<lambda>tr. column (fst tr) 1) (registered (transformer example_station) ''Station'' ''CMS'')
       = Some (0, 0, - 1) \<and>
     map_option (\<lambda>tr. column (fst tr) 1) (registered (transformer example_station) ''Station'' ''StationNvPhi'')
       = Some (0, 1, 0) \<and>
     map_option (\<lambda>tr. column (fst tr) 0) (registered (transformer example_station) ''Station'' ''StationNvEta'')
       = Some (1, 0, 0)"
    using neg by auto
  have "\<exists>Rcms tcms Rphi Reta.
          registered (transformer forward_station) ''Station'' ''CMS'' = Some (Rcms, tcms) \<and>
          registered (transformer forward_station) ''Station'' ''StationNvPhi'' = Some (Rphi, (0, 0, 0)) \<and>
          registered (transformer forward_station) ''Station'' ''StationNvEta'' = Some (Reta, (0, 0, 0)) \<and>
          column Rcms 1 = (0, 0, real_of_int (face_orientation 2 1)) \<and>
          column Rphi 1 = (0, - real_of_int (face_orientation 2 1), 0) \<and>
          column Reta 0 = (- real_of_int (face_orientation 2 1), 0, 0)"
    using face_orientation_in_registered_rotations[OF r2, of example_geometry]
          Station_init_forward
    by blast
  then have b:
    "map_option (\<lambda>tr. column (fst tr) 1) (registered (transformer forward_station) ''Station'' ''CMS'')
       = Some (0, 0, 1) \<and>
     map_option (\<lambda>tr. column (fst tr) 1) (registered (transformer forward_station) ''Station'' ''StationNvPhi'')
       = Some (0, - 1, 0) \<and>
     map_option (\<lambda>tr. column (fst tr) 0) (registered (transformer forward_station) ''Station'' ''StationNvEta'')
       = Some (- 1, 0, 0)"
    using pos by auto
  from a b neg pos Station_init_example Station_init_forward show ?thesis
    by simp
qed

section \<open>The rotation to the CMS frame\<close>

text \<open>
  C2, as the claim states it, fails: for a chamber whose normal is (0, 0, 1) the x axis
  registered for the rotation to CMS is the zero vector, so the three columns have
  determinant 0 and are no frame, right-handed or other.
\<close>

theorem axial_station_no_frame_counterexample:
  "Station_init axial_geometry 0 4 2 None = (example_lookups, [], Inr axial_station) \<and>
   direction axial_station = (0, 0, 1) \<and>
   registered (transformer axial_station) ''Station'' ''CMS''
     = Some (((0, 0, 0), (0, 0, 0), (0, - 1, 1)), (1, 2, 3)) \<and>
   column ((0, 0, 0), (0, 0, 0), (0, - 1, 1)) 0 = (0, 0, 0) \<and>
   det ((0, 0, 0), (0, 0, 0), (0, - 1, 1)) = 0"
  by (simp add: Station_init_axial axial_station_def registered_def det_def)

text \<open>
  C2, amended. For every in-range wheel, sector and station number construction
  returns a station, and in every station it returns, with (dx, dy, dz) the normal the
  geometry source gives and f the face-orientation sign, the rotation registered for
  (Station, CMS) has the columns ez = (dx, dy, dz), the station's \<open>direction\<close>,
  ey = (0, 0, f), and ex = (-f * dy, f * dx, 0), the cross product of ey and ez,
  perpendicular to both. The determinant of the three columns is dx * dx + dy * dy,
  so they are right-handed exactly when the normal is not along the z axis. The
  translation registered with the rotation is the station's global position.
\<close>

theorem cms_rotation_axes:
  assumes "- 2 \<le> w" "w \<le> 2" "1 \<le> s" "s \<le> 14" "1 \<le> n" "n \<le> 4"
      and "get_NormalVector g (get_rawId g w s n) = (dx, dy, dz)"
  shows "(\<exists>st. Station_init g w s n None =
                 ([Lookup_rawId w s n, Lookup_LocalPosition (get_rawId g w s n),
                   Lookup_GlobalPosition (get_rawId g w s n),
                   Lookup_NormalVector (get_rawId g w s n),
                   Lookup_Bounds (get_rawId g w s n), Lookup_element (get_rawId g w s n)],
                  [], Inr st)) \<and>
         (\<forall>info qs ws st.
            Station_init g w s n info = (qs, ws, Inr st) \<longrightarrow>
            direction st = (dx, dy, dz) \<and>
            global_center st = get_GlobalPosition g (get_rawId g w s n) \<and>
            (\<exists>R. registered (transformer st) ''Station'' ''CMS'' = Some (R, global_center st) \<and>
                 column R 2 = (dx, dy, dz) \<and>
                 column R 1 = (0, 0, real_of_int (face_orientation w s)) \<and>
                 column R 0 = (- (real_of_int (face_orientation w s) * dy),
                               real_of_int (face_orientation w s) * dx, 0) \<and>
                 column R 0 = cross (column R 1) (column R 2) \<and>
                 dot (column R 0) (column R 1) = 0 \<and>
                 dot (column R 0) (column R 2) = 0 \<and>
                 det R = dx * dx + dy * dy \<and>
                 (0 < det R \<longleftrightarrow> dx \<noteq> 0 \<or> dy \<noteq> 0)))"
proof -
  let ?f = "real_of_int (face_orientation w s)"
  let ?R = "((- (?f * dy), 0, dx), (?f * dx, 0, dy), (0, ?f, dz))"
  have ff: "?f * ?f = 1"
    using face_orientation_cases[of w s] by auto
  have col: "column ?R 2 = (dx, dy, dz)" "column ?R 1 = (0, 0, ?f)"
            "column ?R 0 = (- (?f * dy), ?f * dx, 0)"
    by simp_all
  have cr: "column ?R 0 = cross (column ?R 1) (column ?R 2)"
    by simp
  have perp: "dot (column ?R 0) (column ?R 1) = 0" "dot (column ?R 0) (column ?R 2) = 0"
    by simp_all
  have "det ?R = (?f * ?f) * (dx * dx + dy * dy)"
    by (simp add: det_def algebra_simps)
  then have dt: "det ?R = dx * dx + dy * dy"
    by (simp add: ff)
  have pos: "0 < det ?R \<longleftrightarrow> dx \<noteq> 0 \<or> dy \<noteq> 0"
    unfolding dt by (rule sum_squares_gt_zero_iff)
  have built: "\<forall>info qs ws st.
            Station_init g w s n info = (qs, ws, Inr st) \<longrightarrow>
            direction st = (dx, dy, dz) \<and>
            global_center st = get_GlobalPosition g (get_rawId g w s n) \<and>
            (\<exists>R. registered (transformer st) ''Station'' ''CMS'' = Some (R, global_center st) \<and>
                 column R 2 = (dx, dy, dz) \<and>
                 column R 1 = (0, 0, ?f) \<and>
                 column R 0 = (- (?f * dy), ?f * dx, 0) \<and>
                 column R 0 = cross (column R 1) (column R 2) \<and>
                 dot (column R 0) (column R 1) = 0 \<and>
                 dot (column R 0) (column R 2) = 0 \<and>
                 det R = dx * dx + dy * dy \<and>
                 (0 < det R \<longleftrightarrow> dx \<noteq> 0 \<or> dy \<noteq> 0))"
  proof (intro allI impI)
    fix info qs ws st
    assume init: "Station_init g w s n info = (qs, ws, Inr st)"
    note facts = Station_init_registered[OF init assms(7)]
    have reg: "registered (transformer st) ''Station'' ''CMS'' = Some (?R, global_center st)"
      using facts(1) facts(5) by simp
    from reg col cr perp dt pos facts(4) facts(5)
    show "direction st = (dx, dy, dz) \<and>
            global_center st = get_GlobalPosition g (get_rawId g w s n) \<and>
            (\<exists>R. registered (transformer st) ''Station'' ''CMS'' = Some (R, global_center st) \<and>
                 column R 2 = (dx, dy, dz) \<and>
                 column R 1 = (0, 0, ?f) \<and>
                 column R 0 = (- (?f * dy), ?f * dx, 0) \<and>
                 column R 0 = cross (column R 1) (column R 2) \<and>
                 dot (column R 0) (column R 1) = 0 \<and>
                 dot (column R 0) (column R 2) = 0 \<and>
                 det R = dx * dx + dy * dy \<and>
                 (0 < det R \<longleftrightarrow> dx \<noteq> 0 \<or> dy \<noteq> 0))"
      by blast
  qed
  from Station_init_in_range[OF assms(1-6), of g] built show ?thesis by blast
qed

theorem cms_rotation_axes_witness:
  "Station_init example_geometry 0 4 2 None = (example_lookups, [], Inr example_station) \<and>
   direction example_station = (0, 1, 0) \<and>
   global_center example_station = (1, 2, 3) \<and>
   registered (transformer example_station) ''Station'' ''CMS''
     = Some (((1, 0, 0), (0, 0, 1), (0, - 1, 0)), (1, 2, 3)) \<and>
   column ((1, 0, 0), (0, 0, 1), (0, - 1, 0)) 2 = (0, 1, 0) \<and>
   column ((1, 0, 0), (0, 0, 1), (0, - 1, 0)) 1 = (0, 0, - 1) \<and>
   column ((1, 0, 0), (0, 0, 1), (0, - 1, 0)) 0 = (1, 0, 0) \<and>
   det ((1, 0, 0), (0, 0, 1), (0, - 1, 0)) = 1"
proof -
  have r: "- 2 \<le> (0::int)" "(0::int) \<le> 2" "1 \<le> (4::int)" "(4::int) \<le> 14"
          "1 \<le> (2::int)" "(2::int) \<le> 4"
    by simp_all
  have d: "get_NormalVector example_geometry (get_rawId example_geometry 0 4 2) = (0, 1, 0)"
    by (simp add: example_geometry_def)
  have neg: "face_orientation 0 4 = - 1" by (simp add: face_orientation_def)
  from cms_rotation_axes[OF r d] Station_init_example
  have "direction example_station = (0, 1, 0) \<and>
        global_center example_station =
          get_GlobalPosition example_geometry (get_rawId example_geometry 0 4 2) \<and>
        (\<exists>R. registered (transformer example_station) ''Station'' ''CMS''
                = Some (R, global_center example_station) \<and>
             column R 2 = (0, 1, 0) \<and>
             column R 1 = (0, 0, real_of_int (face_orientation 0 4)) \<and>
             column R 0 = (- (real_of_int (face_orientation 0 4) * 1),
                           real_of_int (face_orientation 0 4) * 0, 0) \<and>
             det R = 0 * 0 + 1 * 1)"
    by blast
  then show ?thesis
    using neg Station_init_example
    by (auto simp: example_geometry_def example_station_def registered_def)
qed

section \<open>The natural-view rotations\<close>

text \<open>
  C3. For every in-range wheel, sector and station number construction returns a
  station, and in every station it returns, with f the face-orientation sign, the two
  natural-view rotations have the fixed z axis (0, 0, -1), whatever the measured normal
  is; the y axis of the phi view is (0, -f, 0) and its x axis (f, 0, 0) is the cross
  product of its y and z axes; the x axis of the eta view is (-f, 0, 0) and its y axis
  (0, f, 0) is the cross product of its z and x axes. The source registers both without
  a translation, which the transform manager stores as the zero translation.
\<close>

theorem natural_view_rotations:
  assumes "- 2 \<le> w" "w \<le> 2" "1 \<le> s" "s \<le> 14" "1 \<le> n" "n \<le> 4"
  shows "(\<exists>st. Station_init g w s n None =
                 ([Lookup_rawId w s n, Lookup_LocalPosition (get_rawId g w s n),
                   Lookup_GlobalPosition (get_rawId g w s n),
                   Lookup_NormalVector (get_rawId g w s n),
                   Lookup_Bounds (get_rawId g w s n), Lookup_element (get_rawId g w s n)],
                  [], Inr st)) \<and>
         (\<forall>info qs ws st.
            Station_init g w s n info = (qs, ws, Inr st) \<longrightarrow>
            (\<exists>Rphi Reta.
               registered (transformer st) ''Station'' ''StationNvPhi'' = Some (Rphi, (0, 0, 0)) \<and>
               registered (transformer st) ''Station'' ''StationNvEta'' = Some (Reta, (0, 0, 0)) \<and>
               column Rphi 2 = (0, 0, - 1) \<and>
               column Reta 2 = (0, 0, - 1) \<and>
               column Rphi 1 = (0, - real_of_int (face_orientation w s), 0) \<and>
               column Rphi 0 = (real_of_int (face_orientation w s), 0, 0) \<and>
               column Rphi 0 = cross (column Rphi 1) (column Rphi 2) \<and>
               column Reta 0 = (- real_of_int (face_orientation w s), 0, 0) \<and>
               column Reta 1 = (0, real_of_int (face_orientation w s), 0) \<and>
               column Reta 1 = cross (column Reta 2) (column Reta 0)))"
proof -
  let ?f = "real_of_int (face_orientation w s)"
  let ?Rphi = "((?f, 0, 0), (0, - ?f, 0), (0, 0, - 1))"
  let ?Reta = "((- ?f, 0, 0), (0, ?f, 0), (0, 0, - 1))"
  obtain dx dy dz where d: "get_NormalVector g (get_rawId g w s n) = (dx, dy, dz)"
    by (cases "get_NormalVector g (get_rawId g w s n)")
  have phi: "column ?Rphi 2 = (0, 0, - 1)" "column ?Rphi 1 = (0, - ?f, 0)"
            "column ?Rphi 0 = (?f, 0, 0)" "column ?Rphi 0 = cross (column ?Rphi 1) (column ?Rphi 2)"
    by simp_all
  have eta: "column ?Reta 2 = (0, 0, - 1)" "column ?Reta 0 = (- ?f, 0, 0)"
            "column ?Reta 1 = (0, ?f, 0)" "column ?Reta 1 = cross (column ?Reta 2) (column ?Reta 0)"
    by simp_all
  have built: "\<forall>info qs ws st.
            Station_init g w s n info = (qs, ws, Inr st) \<longrightarrow>
            (\<exists>Rphi Reta.
               registered (transformer st) ''Station'' ''StationNvPhi'' = Some (Rphi, (0, 0, 0)) \<and>
               registered (transformer st) ''Station'' ''StationNvEta'' = Some (Reta, (0, 0, 0)) \<and>
               column Rphi 2 = (0, 0, - 1) \<and>
               column Reta 2 = (0, 0, - 1) \<and>
               column Rphi 1 = (0, - ?f, 0) \<and>
               column Rphi 0 = (?f, 0, 0) \<and>
               column Rphi 0 = cross (column Rphi 1) (column Rphi 2) \<and>
               column Reta 0 = (- ?f, 0, 0) \<and>
               column Reta 1 = (0, ?f, 0) \<and>
               column Reta 1 = cross (column Reta 2) (column Reta 0))"
  proof (intro allI impI)
    fix info qs ws st
    assume init: "Station_init g w s n info = (qs, ws, Inr st)"
    note reg = Station_init_registered(2,3)[OF init d]
    from reg phi eta
    show "\<exists>Rphi Reta.
               registered (transformer st) ''Station'' ''StationNvPhi'' = Some (Rphi, (0, 0, 0)) \<and>
               registered (transformer st) ''Station'' ''StationNvEta'' = Some (Reta, (0, 0, 0)) \<and>
               column Rphi 2 = (0, 0, - 1) \<and>
               column Reta 2 = (0, 0, - 1) \<and>
               column Rphi 1 = (0, - ?f, 0) \<and>
               column Rphi 0 = (?f, 0, 0) \<and>
               column Rphi 0 = cross (column Rphi 1) (column Rphi 2) \<and>
               column Reta 0 = (- ?f, 0, 0) \<and>
               column Reta 1 = (0, ?f, 0) \<and>
               column Reta 1 = cross (column Reta 2) (column Reta 0)"
      by blast
  qed
  from Station_init_in_range[OF assms, of g] built show ?thesis by blast
qed

theorem natural_view_rotations_witness:
  "Station_init example_geometry 0 4 2 None = (example_lookups, [], Inr example_station) \<and>
   face_orientation 0 4 = - 1 \<and>
   registered (transformer example_station) ''Station'' ''StationNvPhi''
     = Some (((- 1, 0, 0), (0, 1, 0), (0, 0, - 1)), (0, 0, 0)) \<and>
   registered (transformer example_station) ''Station'' ''StationNvEta''
     = Some (((1, 0, 0), (0, - 1, 0), (0, 0, - 1)), (0, 0, 0)) \<and>
   Station_init example_geometry 2 1 1 None = (forward_lookups, [], Inr forward_station) \<and>
   face_orientation 2 1 = 1 \<and>
   registered (transformer forward_station) ''Station'' ''StationNvPhi''
     = Some (((1, 0, 0), (0, - 1, 0), (0, 0, - 1)), (0, 0, 0)) \<and>
   registered (transformer forward_station) ''Station'' ''StationNvEta''
     = Some (((- 1, 0, 0), (0, 1, 0), (0, 0, - 1)), (0, 0, 0))"
proof -
  have neg: "face_orientation 0 4 = - 1" and pos: "face_orientation 2 1 = 1"
    by (simp_all add: face_orientation_def)
  have r1: "- 2 \<le> (0::int)" "(0::int) \<le> 2" "1 \<le> (4::int)" "(4::int) \<le> 14"
           "1 \<le> (2::int)" "(2::int) \<le> 4"
    by simp_all
  have r2: "- 2 \<le> (2::int)" "(2::int) \<le> 2" "1 \<le> (1::int)" "(1::int) \<le> 14"
           "1 \<le> (1::int)" "(1::int) \<le> 4"
    by simp_all
  from natural_view_rotations[OF r1, of example_geometry] Station_init_example
  have "\<exists>Rphi Reta.
          registered (transformer example_station) ''Station'' ''StationNvPhi'' = Some (Rphi, (0, 0, 0)) \<and>
          registered (transformer example_station) ''Station'' ''StationNvEta'' = Some (Reta, (0, 0, 0)) \<and>
          column Rphi 2 = (0, 0, - 1) \<and>
          column Rphi 1 = (0, - real_of_int (face_orientation 0 4), 0) \<and>
          column Rphi 0 = (real_of_int (face_orientation 0 4), 0, 0) \<and>
          column Reta 2 = (0, 0, - 1) \<and>
          column Reta 0 = (- real_of_int (face_orientation 0 4), 0, 0) \<and>
          column Reta 1 = (0, real_of_int (face_orientation 0 4), 0)"
    by blast
  then have a:
    "registered (transformer example_station) ''Station'' ''StationNvPhi''
       = Some (((- 1, 0, 0), (0, 1, 0), (0, 0, - 1)), (0, 0, 0)) \<and>
     registered (transformer example_station) ''Station'' ''StationNvEta''
       = Some (((1, 0, 0), (0, - 1, 0), (0, 0, - 1)), (0, 0, 0))"
    using neg by (auto simp: example_station_def registered_def)
  from natural_view_rotations[OF r2, of example_geometry] Station_init_forward
  have "\<exists>Rphi Reta.
          registered (transformer forward_station) ''Station'' ''StationNvPhi'' = Some (Rphi, (0, 0, 0)) \<and>
          registered (transformer forward_station) ''Station'' ''StationNvEta'' = Some (Reta, (0, 0, 0)) \<and>
          column Rphi 2 = (0, 0, - 1) \<and>
          column Rphi 1 = (0, - real_of_int (face_orientation 2 1), 0) \<and>
          column Rphi 0 = (real_of_int (face_orientation 2 1), 0, 0) \<and>
          column Reta 2 = (0, 0, - 1) \<and>
          column Reta 0 = (- real_of_int (face_orientation 2 1), 0, 0) \<and>
          column Reta 1 = (0, real_of_int (face_orientation 2 1), 0)"
    by blast
  then have b:
    "registered (transformer forward_station) ''Station'' ''StationNvPhi''
       = Some (((1, 0, 0), (0, - 1, 0), (0, 0, - 1)), (0, 0, 0)) \<and>
     registered (transformer forward_station) ''Station'' ''StationNvEta''
       = Some (((- 1, 0, 0), (0, 1, 0), (0, 0, - 1)), (0, 0, 0))"
    using pos by (auto simp: forward_station_def example_station_def registered_def)
  from a b neg pos Station_init_example Station_init_forward show ?thesis
    by simp
qed

section \<open>Orthonormality of the registered rotations\<close>

text \<open>
  C4, as the claim states it, fails: for a chamber whose normal is (0, 0, 1) the x axis
  of the rotation to CMS is the zero vector and its y and z axes are antiparallel, so
  the matrix is not orthonormal within 1e-9. All numbers of this example are exact in
  floating point too.
\<close>

theorem axial_normal_counterexample:
  "Station_init axial_geometry 0 4 2 None = (example_lookups, [], Inr axial_station) \<and>
   registered (transformer axial_station) ''Station'' ''CMS''
     = Some (((0, 0, 0), (0, 0, 0), (0, - 1, 1)), (1, 2, 3)) \<and>
   \<not> orthonormal_within (1 / 10 ^ 9) ((0, 0, 0), (0, 0, 0), (0, - 1, 1))"
  by (simp add: Station_init_axial axial_station_def registered_def orthonormal_within_def Let_def)

text \<open>
  C4, amended. For every station that construction returns and every tolerance
  \<open>tol \<ge> 0\<close>, the two natural-view rotations are orthonormal within \<open>tol\<close>; the
  rotation to CMS is orthonormal within \<open>tol\<close> exactly when the normal (dx, dy, dz) of
  the geometry source has \<open>|dz| \<le> tol\<close>, squared length within \<open>tol\<close> of 1, and
  \<open>dx * dx + dy * dy\<close> within \<open>tol\<close> of 1 (in exact arithmetic).
\<close>

theorem registered_rotations_orthonormal:
  assumes "Station_init g w s n info = (qs, ws, Inr st)"
      and "0 \<le> tol"
      and "direction st = (dx, dy, dz)"
  shows "\<exists>Rcms tcms Rphi tphi Reta teta.
           registered (transformer st) ''Station'' ''CMS'' = Some (Rcms, tcms) \<and>
           registered (transformer st) ''Station'' ''StationNvPhi'' = Some (Rphi, tphi) \<and>
           registered (transformer st) ''Station'' ''StationNvEta'' = Some (Reta, teta) \<and>
           orthonormal_within tol Rphi \<and>
           orthonormal_within tol Reta \<and>
           (orthonormal_within tol Rcms \<longleftrightarrow>
              \<bar>dz\<bar> \<le> tol \<and> \<bar>dx * dx + dy * dy + dz * dz - 1\<bar> \<le> tol \<and>
              \<bar>dx * dx + dy * dy - 1\<bar> \<le> tol)"
proof -
  note init = Station_init_Inr[OF assms(1)]
  from init assms(3) have d: "get_NormalVector g (get_rawId g w s n) = (dx, dy, dz)"
    by simp
  from init have tm: "setup_tranformer w s (dx, dy, dz)
                        (get_GlobalPosition g (get_rawId g w s n)) = Inr (transformer st)"
    by (simp add: d)
  note reg = registered_setup_tranformer[OF tm]
  from reg orthonormal_natural_views[OF assms(2), of w s]
       orthonormal_cms[OF assms(2), of w s dx dy dz]
  show ?thesis by blast
qed

theorem registered_rotations_orthonormal_witness:
  "orthonormal_within (1 / 10 ^ 9) ((1, 0, 0), (0, 0, 1), (0, - 1, 0)) \<and>
   orthonormal_within (1 / 10 ^ 9) ((- 1, 0, 0), (0, 1, 0), (0, 0, - 1)) \<and>
   orthonormal_within (1 / 10 ^ 9) ((1, 0, 0), (0, - 1, 0), (0, 0, - 1)) \<and>
   registered (transformer example_station) ''Station'' ''CMS''
     = Some (((1, 0, 0), (0, 0, 1), (0, - 1, 0)), (1, 2, 3)) \<and>
   registered (transformer example_station) ''Station'' ''StationNvPhi''
     = Some (((- 1, 0, 0), (0, 1, 0), (0, 0, - 1)), (0, 0, 0)) \<and>
   registered (transformer example_station) ''Station'' ''StationNvEta''
     = Some (((1, 0, 0), (0, - 1, 0), (0, 0, - 1)), (0, 0, 0))"
proof -
  have tol: "(0::real) \<le> 1 / 10 ^ 9" by simp
  have dir: "direction example_station = (0, 1, 0)" by (simp add: example_station_def)
  show ?thesis
    using registered_rotations_orthonormal[OF Station_init_example tol dir]
    by (simp add: example_station_def registered_def)
qed

section \<open>Invalid configurations\<close>

text \<open>
  C5. For every wheel outside [-2, 2], sector outside [1, 14] or station number outside
  [1, 4], construction raises the \<open>ValueError\<close> of the first failing setter (wheel, then
  sector, then number), whatever the geometry source and the cell information are; no
  geometry lookup has been made, no warning emitted, and no station is returned.
\<close>

theorem invalid_configuration_fails_fast:
  assumes "\<not> (- 2 \<le> w \<and> w \<le> 2 \<and> 1 \<le> s \<and> s \<le> 14 \<and> 1 \<le> n \<and> n \<le> 4)"
  shows "Station_init g w s n info =
           ([], [], Inl (ValueError
              (if w < - 2 \<or> 2 < w then ''Wheel value must be between -2 and 2''
               else if s < 1 \<or> 14 < s then ''Sector value must be between 1 and 14''
               else ''Station value must be between 1 and 4'')))"
  using assms
  by (auto simp: Station_init_def wheel_setter_def sector_setter_def number_setter_def)

theorem invalid_configuration_fails_fast_witness:
  "Station_init example_geometry 3 1 1 None
     = ([], [], Inl (ValueError ''Wheel value must be between -2 and 2'')) \<and>
   Station_init example_geometry 0 15 1 None
     = ([], [], Inl (ValueError ''Sector value must be between 1 and 14'')) \<and>
   Station_init example_geometry 0 4 0 None
     = ([], [], Inl (ValueError ''Station value must be between 1 and 4''))"
  using invalid_configuration_fails_fast[of 3 1 1 example_geometry None]
        invalid_configuration_fails_fast[of 0 15 1 example_geometry None]
        invalid_configuration_fails_fast[of 0 4 0 example_geometry None]
  by simp

section \<open>Records without an identifier\<close>

text \<open>
  C6, as the claim states it, fails: the identifiers are checked record by record inside
  the loop, so a call whose second record lacks \<open>w\<close> raises only after the first record
  has been applied. Here the cell of wire 10 has got \<open>time = 10\<close> when the
  \<open>ValueError\<close> is raised.
\<close>

theorem earlier_records_stay_counterexample:
  "set_cell_attrs example_station
     (Info_list [[(''sl'', PyInt 1), (''l'', PyInt 1), (''w'', PyInt 10), (''time'', PyInt 10)],
                 [(''sl'', PyInt 1), (''l'', PyInt 1), (''time'', PyInt 20)]]) =
     ((example_station\<lparr>super_layers :=
         [\<lparr>sl_number = 1,
           layers = [\<lparr>layer_number = 1,
                     cells = [\<lparr>cell_number = 10, attrs = [(''time'', PyInt 10)]\<rparr>]\<rparr>]\<rparr>]\<rparr>, []),
      Some (ValueError
        ''The drift cell information must contain the super layer, layer, and wire identifiers.'')) \<and>
   super_layers example_station =
     [\<lparr>sl_number = 1,
       layers = [\<lparr>layer_number = 1, cells = [\<lparr>cell_number = 10, attrs = []\<rparr>]\<rparr>]\<rparr>]"
  by (simp add: set_cell_attrs_def set_cell_attrs_item_def pop_def all_py_def super_layer_def
        layer_def cell_def next_or_None_def assign_cell_def setattr_items_def example_station_def)

text \<open>
  C6, amended. When the loop reaches a record that lacks \<open>sl\<close>, \<open>l\<close> or \<open>w\<close> (the
  records before it having been processed without an error), \<open>ValueError\<close> is raised
  and the call is aborted: that record and the records after it change no cell and emit
  no warning, and the station is as the earlier records left it. When the record is the
  first of the list, or the single dict passed, no cell of the station is changed.
\<close>

theorem missing_identifier_aborts:
  assumes "map_of r ''sl'' = None \<or> map_of r ''l'' = None \<or> map_of r ''w'' = None"
      and "set_cell_attrs_loop (st, []) pre = ((st', ws'), None)"
  shows "set_cell_attrs st (Info_list (pre @ r # post)) =
           ((st', ws'), Some (ValueError
             ''The drift cell information must contain the super layer, layer, and wire identifiers.'')) \<and>
         set_cell_attrs st (Info_DataFrame (pre @ r # post)) =
           ((st', ws'), Some (ValueError
             ''The drift cell information must contain the super layer, layer, and wire identifiers.'')) \<and>
         set_cell_attrs st (Info_list (r # post)) =
           ((st, []), Some (ValueError
             ''The drift cell information must contain the super layer, layer, and wire identifiers.'')) \<and>
         set_cell_attrs st (Info_dict r) =
           ((st, []), Some (ValueError
             ''The drift cell information must contain the super layer, layer, and wire identifiers.''))"
  by (simp add: set_cell_attrs_shapes loop_reaches[OF assms(2)] item_missing[OF assms(1)])

theorem missing_identifier_aborts_witness:
  "set_cell_attrs example_station
     (Info_list [[(''sl'', PyInt 99), (''l'', PyInt 1), (''w'', PyInt 1)],
                 [(''sl'', PyInt 1), (''l'', PyInt 1), (''time'', PyInt 10)],
                 [(''sl'', PyInt 1), (''l'', PyInt 1), (''w'', PyInt 10), (''time'', PyInt 10)]]) =
     ((example_station, [SuperLayer_does_not_exist (PyInt 99) 0 4 2]),
      Some (ValueError
        ''The drift cell information must contain the super layer, layer, and wire identifiers.''))"
proof -
  have m: "map_of [(''sl'', PyInt 1), (''l'', PyInt 1), (''time'', PyInt 10)] ''sl'' = None \<or>
           map_of [(''sl'', PyInt 1), (''l'', PyInt 1), (''time'', PyInt 10)] ''l'' = None \<or>
           map_of [(''sl'', PyInt 1), (''l'', PyInt 1), (''time'', PyInt 10)] ''w'' = None"
    by simp
  have p: "set_cell_attrs_loop (example_station, [])
             [[(''sl'', PyInt 99), (''l'', PyInt 1), (''w'', PyInt 1)]] =
           ((example_station, [SuperLayer_does_not_exist (PyInt 99) 0 4 2]), None)"
    by (simp add: set_cell_attrs_item_def pop_def all_py_def super_layer_def next_or_None_def
          example_station_def)
  from missing_identifier_aborts[OF m p,
      of "[[(''sl'', PyInt 1), (''l'', PyInt 1), (''w'', PyInt 10), (''time'', PyInt 10)]]"]
  show ?thesis by simp
qed

section \<open>Records for a super layer the station does not have\<close>

text \<open>
  C7, as the claim states it, fails: the station has no super layer 99, yet a record
  for super layer 99 that lacks \<open>w\<close> aborts the call with a \<open>ValueError\<close> and no
  warning, and a record for super layer 99 that comes after a record for an absent
  layer is never reached: the call has failed with an \<open>AttributeError\<close> before it.
\<close>

theorem unknown_super_layer_not_skipped_counterexample:
  "map sl_number (super_layers example_station) = [1] \<and>
   set_cell_attrs example_station
     (Info_list [[(''sl'', PyInt 99), (''l'', PyInt 1), (''time'', PyInt 7)],
                 [(''sl'', PyInt 1), (''l'', PyInt 1), (''w'', PyInt 10), (''time'', PyInt 10)]]) =
     ((example_station, []), Some (ValueError
        ''The drift cell information must contain the super layer, layer, and wire identifiers.'')) \<and>
   set_cell_attrs example_station
     (Info_list [[(''sl'', PyInt 1), (''l'', PyInt 7), (''w'', PyInt 10), (''time'', PyInt 10)],
                 [(''sl'', PyInt 99), (''l'', PyInt 1), (''w'', PyInt 10), (''time'', PyInt 7)]]) =
     ((example_station, []), Some (AttributeError ''cell''))"
  by (simp add: set_cell_attrs_def set_cell_attrs_item_def pop_def all_py_def super_layer_def
        layer_def cell_def next_or_None_def example_station_def)

text \<open>
  C7, amended. When the loop reaches a record (the records before it having been
  processed without an error) that carries truthy \<open>sl\<close>, \<open>l\<close> and \<open>w\<close> and whose \<open>sl\<close>
  equals the number of no super layer of the station, one warning is emitted, the
  station is left as it was, no error is raised, and the loop goes on with the
  remaining records.
\<close>

theorem unknown_super_layer_skipped:
  assumes "map_of r ''sl'' = Some sl" "map_of r ''l'' = Some l" "map_of r ''w'' = Some w"
      and "truthy sl" "truthy l" "truthy w"
      and "\<forall>x\<in>set (super_layers st). \<not> eq_number (sl_number x) sl"
      and "set_cell_attrs_loop (st, []) pre = ((st', ws'), None)"
  shows "set_cell_attrs_item (st', ws') r =
           Inr (st', ws' @ [SuperLayer_does_not_exist sl (wheel st) (sector st) (number st)]) \<and>
         set_cell_attrs st (Info_list (pre @ r # post)) =
           set_cell_attrs_loop
             (st', ws' @ [SuperLayer_does_not_exist sl (wheel st) (sector st) (number st)]) post \<and>
         set_cell_attrs st (Info_DataFrame (pre @ r # post)) =
           set_cell_attrs_loop
             (st', ws' @ [SuperLayer_does_not_exist sl (wheel st) (sector st) (number st)]) post \<and>
         set_cell_attrs st (Info_dict r) =
           ((st, [SuperLayer_does_not_exist sl (wheel st) (sector st) (number st)]), None)"
proof -
  let ?W = "SuperLayer_does_not_exist sl (wheel st) (sector st) (number st)"
  from assms(7) have none: "super_layer st sl = None"
    by (simp add: super_layer_def next_or_None_None)
  then have none': "super_layer st' sl = None"
    using set_cell_attrs_loop_numbers[OF assms(8)] by (simp add: super_layer_None_numbers)
  from set_cell_attrs_loop_frame[OF assms(8)]
  have same: "wheel st' = wheel st" "sector st' = sector st" "number st' = number st"
    by simp_all
  have all: "all_py [sl, l, w]" using assms(4-6) by (simp add: all_py_def)
  have item': "set_cell_attrs_item (st', ws') r = Inr (st', ws' @ [?W])"
    by (simp add: item_present[OF assms(1-3)] all none' same)
  have item: "set_cell_attrs_item (st, []) r = Inr (st, [?W])"
    by (simp add: item_present[OF assms(1-3)] all none)
  show ?thesis
    by (simp add: set_cell_attrs_shapes loop_reaches[OF assms(8)] item' item)
qed

theorem unknown_super_layer_skipped_witness:
  "set_cell_attrs example_station
     (Info_list [[(''sl'', PyInt 99), (''l'', PyInt 1), (''w'', PyInt 10), (''time'', PyInt 7)],
                 [(''sl'', PyInt 1), (''l'', PyInt 1), (''w'', PyInt 10), (''time'', PyInt 10)]]) =
     ((example_station\<lparr>super_layers :=
         [\<lparr>sl_number = 1,
           layers = [\<lparr>layer_number = 1,
                     cells = [\<lparr>cell_number = 10, attrs = [(''time'', PyInt 10)]\<rparr>]\<rparr>]\<rparr>]\<rparr>,
       [SuperLayer_does_not_exist (PyInt 99) 0 4 2]), None)"
proof -
  let ?r = "[(''sl'', PyInt 99), (''l'', PyInt 1), (''w'', PyInt 10), (''time'', PyInt 7)]"
  have ids: "map_of ?r ''sl'' = Some (PyInt 99)" "map_of ?r ''l'' = Some (PyInt 1)"
            "map_of ?r ''w'' = Some (PyInt 10)"
    by simp_all
  have t: "truthy (PyInt 99)" "truthy (PyInt 1)" "truthy (PyInt 10)" by simp_all
  have absent: "\<forall>x\<in>set (super_layers example_station). \<not> eq_number (sl_number x) (PyInt 99)"
    by (simp add: example_station_def)
  have pre: "set_cell_attrs_loop (example_station, []) [] = ((example_station, []), None)"
    by simp
  from unknown_super_layer_skipped[OF ids t absent pre,
      of "[[(''sl'', PyInt 1), (''l'', PyInt 1), (''w'', PyInt 10), (''time'', PyInt 10)]]"]
  show ?thesis
    by (simp add: set_cell_attrs_item_def pop_def all_py_def super_layer_def
        layer_def cell_def next_or_None_def assign_cell_def setattr_items_def example_station_def)
qed

section \<open>Looking a super layer up\<close>

text \<open>
  C8. \<open>super_layer\<close> returns \<^verbatim>\<open>None\<close> exactly when no super layer of the station has
  the number asked for, and otherwise the first super layer in the station's list whose
  number equals it: none before it in the list has that number. It is a total function
  into an option, so it raises nothing.
\<close>

theorem super_layer_linear_search:
  "(super_layer st n = None \<longleftrightarrow> (\<forall>x\<in>set (super_layers st). \<not> eq_number (sl_number x) n)) \<and>
   (\<forall>x. super_layer st n = Some x \<longrightarrow>
      (\<exists>pre post. super_layers st = pre @ x # post \<and> eq_number (sl_number x) n \<and>
                  (\<forall>y\<in>set pre. \<not> eq_number (sl_number y) n)))"
proof -
  have a: "super_layer st n = None \<longleftrightarrow> (\<forall>x\<in>set (super_layers st). \<not> eq_number (sl_number x) n)"
    by (simp add: super_layer_def next_or_None_None)
  have b: "\<forall>x. super_layer st n = Some x \<longrightarrow>
      (\<exists>pre post. super_layers st = pre @ x # post \<and> eq_number (sl_number x) n \<and>
                  (\<forall>y\<in>set pre. \<not> eq_number (sl_number y) n))"
    unfolding super_layer_def
    using next_or_None_Some[of "\<lambda>sl. eq_number (sl_number sl) n" "super_layers st"]
    by blast
  from a b show ?thesis by blast
qed

theorem super_layer_linear_search_witness:
  "super_layer example_station (PyInt 99) = None \<and>
   super_layer example_station (PyInt 1) =
     Some \<lparr>sl_number = 1,
           layers = [\<lparr>layer_number = 1, cells = [\<lparr>cell_number = 10, attrs = []\<rparr>]\<rparr>]\<rparr>"
proof -
  have "\<forall>x\<in>set (super_layers example_station). \<not> eq_number (sl_number x) (PyInt 99)"
    by (simp add: example_station_def)
  with super_layer_linear_search[of example_station "PyInt 99"]
  have none: "super_layer example_station (PyInt 99) = None" by blast
  have "super_layer example_station (PyInt 1) =
     Some \<lparr>sl_number = 1,
           layers = [\<lparr>layer_number = 1, cells = [\<lparr>cell_number = 10, attrs = []\<rparr>]\<rparr>]\<rparr>"
    by (simp add: super_layer_def next_or_None_def example_station_def)
  with none show ?thesis by simp
qed

section \<open>Identifiers that are present but falsy\<close>

text \<open>
  C9. When the loop reaches a record in which \<open>sl\<close>, \<open>l\<close> and \<open>w\<close> are all present and
  one of them is falsy (0, \<^verbatim>\<open>False\<close>, the empty string, \<^verbatim>\<open>None\<close>), the same
  \<open>ValueError\<close> is raised as for a missing identifier.
\<close>

theorem falsy_identifier_rejected:
  assumes "map_of r ''sl'' = Some sl" "map_of r ''l'' = Some l" "map_of r ''w'' = Some w"
      and "\<not> truthy sl \<or> \<not> truthy l \<or> \<not> truthy w"
      and "set_cell_attrs_loop (st, []) pre = ((st', ws'), None)"
  shows "set_cell_attrs_item (st', ws') r = Inl (ValueError
           ''The drift cell information must contain the super layer, layer, and wire identifiers.'') \<and>
         set_cell_attrs st (Info_list (pre @ r # post)) =
           ((st', ws'), Some (ValueError
             ''The drift cell information must contain the super layer, layer, and wire identifiers.'')) \<and>
         set_cell_attrs st (Info_DataFrame (pre @ r # post)) =
           ((st', ws'), Some (ValueError
             ''The drift cell information must contain the super layer, layer, and wire identifiers.'')) \<and>
         set_cell_attrs st (Info_dict r) =
           ((st, []), Some (ValueError
             ''The drift cell information must contain the super layer, layer, and wire identifiers.''))"
  by (simp add: set_cell_attrs_shapes loop_reaches[OF assms(5)] item_falsy[OF assms(1-4)])

theorem falsy_identifier_rejected_witness:
  "set_cell_attrs example_station
     (Info_dict [(''sl'', PyInt 1), (''l'', PyInt 1), (''w'', PyInt 0), (''time'', PyInt 10)]) =
     ((example_station, []), Some (ValueError
        ''The drift cell information must contain the super layer, layer, and wire identifiers.''))"
proof -
  let ?r = "[(''sl'', PyInt 1), (''l'', PyInt 1), (''w'', PyInt 0), (''time'', PyInt 10)]"
  have ids: "map_of ?r ''sl'' = Some (PyInt 1)" "map_of ?r ''l'' = Some (PyInt 1)"
            "map_of ?r ''w'' = Some (PyInt 0)"
    by simp_all
  have f: "\<not> truthy (PyInt 1) \<or> \<not> truthy (PyInt 1) \<or> \<not> truthy (PyInt 0)" by simp
  have pre: "set_cell_attrs_loop (example_station, []) [] = ((example_station, []), None)"
    by simp
  from falsy_identifier_rejected[OF ids f pre] show ?thesis by simp
qed

section \<open>Layers and cells the super layer does not have\<close>

text \<open>
  C10, as the claim states it, fails for the wire: a record with nothing but the three
  identifiers, whose wire matches no cell of the layer, raises nothing, since
  \<^verbatim>\<open>setattr\<close> is never called on the \<^verbatim>\<open>None\<close> that the lookup returned.
\<close>

theorem bare_record_unknown_wire_counterexample:
  "set_cell_attrs example_station
     (Info_list [[(''sl'', PyInt 1), (''l'', PyInt 1), (''w'', PyInt 99)]]) =
     ((example_station, []), None) \<and>
   super_layer example_station (PyInt 1) =
     Some \<lparr>sl_number = 1,
           layers = [\<lparr>layer_number = 1, cells = [\<lparr>cell_number = 10, attrs = []\<rparr>]\<rparr>]\<rparr> \<and>
   layer \<lparr>sl_number = 1,
          layers = [\<lparr>layer_number = 1, cells = [\<lparr>cell_number = 10, attrs = []\<rparr>]\<rparr>]\<rparr> (PyInt 1) =
     Some \<lparr>layer_number = 1, cells = [\<lparr>cell_number = 10, attrs = []\<rparr>]\<rparr> \<and>
   cell \<lparr>layer_number = 1, cells = [\<lparr>cell_number = 10, attrs = []\<rparr>]\<rparr> (PyInt 99) = None"
  by (simp add: set_cell_attrs_def set_cell_attrs_item_def pop_def all_py_def super_layer_def
        layer_def cell_def next_or_None_def example_station_def)

text \<open>
  C10, amended. When the loop reaches a record with truthy \<open>sl\<close>, \<open>l\<close> and \<open>w\<close> whose
  \<open>sl\<close> matches a super layer: if \<open>l\<close> matches no layer of it, the call fails with an
  \<open>AttributeError\<close> (\<^verbatim>\<open>.cell\<close> on \<^verbatim>\<open>None\<close>); if \<open>l\<close> matches a layer and \<open>w\<close> no
  cell of it, the call fails with an \<open>AttributeError\<close> at the first further item of
  the record when there is one, and when there is none the record is passed over and
  the loop goes on. In no case is a warning emitted or a cell changed by the record.
\<close>

theorem unguarded_layer_and_cell_lookups:
  assumes "map_of r ''sl'' = Some sl" "map_of r ''l'' = Some l" "map_of r ''w'' = Some w"
      and "truthy sl" "truthy l" "truthy w"
      and "set_cell_attrs_loop (st, []) pre = ((st', ws'), None)"
      and "super_layer st' sl = Some found"
  shows "(layer found l = None \<longrightarrow>
            set_cell_attrs st (Info_list (pre @ r # post)) =
              ((st', ws'), Some (AttributeError ''cell''))) \<and>
         (\<forall>lay kv rest.
            layer found l = Some lay \<and> cell lay w = None \<and> remaining_items r = kv # rest \<longrightarrow>
            set_cell_attrs st (Info_list (pre @ r # post)) =
              ((st', ws'), Some (AttributeError (fst kv)))) \<and>
         (\<forall>lay.
            layer found l = Some lay \<and> cell lay w = None \<and> remaining_items r = [] \<longrightarrow>
            set_cell_attrs st (Info_list (pre @ r # post)) =
              set_cell_attrs_loop (st', ws') post)"
proof -
  have all: "all_py [sl, l, w]" using assms(4-6) by (simp add: all_py_def)
  note item = item_present[OF assms(1-3), of st' ws']
  note reach = loop_reaches[OF assms(7), of r post]
  have a: "layer found l = None \<longrightarrow>
            set_cell_attrs st (Info_list (pre @ r # post)) =
              ((st', ws'), Some (AttributeError ''cell''))"
    by (simp add: set_cell_attrs_shapes reach item all assms(8))
  have b: "\<forall>lay kv rest.
            layer found l = Some lay \<and> cell lay w = None \<and> remaining_items r = kv # rest \<longrightarrow>
            set_cell_attrs st (Info_list (pre @ r # post)) =
              ((st', ws'), Some (AttributeError (fst kv)))"
    by (simp add: set_cell_attrs_shapes reach item all assms(8))
  have c: "\<forall>lay.
            layer found l = Some lay \<and> cell lay w = None \<and> remaining_items r = [] \<longrightarrow>
            set_cell_attrs st (Info_list (pre @ r # post)) =
              set_cell_attrs_loop (st', ws') post"
    by (simp add: set_cell_attrs_shapes reach item all assms(8))
  from a b c show ?thesis by blast
qed

theorem unguarded_layer_and_cell_lookups_witness:
  "set_cell_attrs example_station
     (Info_list [[(''sl'', PyInt 1), (''l'', PyInt 7), (''w'', PyInt 10), (''time'', PyInt 10)]]) =
     ((example_station, []), Some (AttributeError ''cell'')) \<and>
   set_cell_attrs example_station
     (Info_list [[(''sl'', PyInt 1), (''l'', PyInt 1), (''w'', PyInt 99), (''time'', PyInt 10)]]) =
     ((example_station, []), Some (AttributeError ''time''))"
proof -
  let ?found = "\<lparr>sl_number = 1,
                  layers = [\<lparr>layer_number = 1, cells = [\<lparr>cell_number = 10, attrs = []\<rparr>]\<rparr>]\<rparr>"
  let ?lay = "\<lparr>layer_number = 1, cells = [\<lparr>cell_number = 10, attrs = []\<rparr>]\<rparr>"
  let ?r1 = "[(''sl'', PyInt 1), (''l'', PyInt 7), (''w'', PyInt 10), (''time'', PyInt 10)]"
  let ?r2 = "[(''sl'', PyInt 1), (''l'', PyInt 1), (''w'', PyInt 99), (''time'', PyInt 10)]"
  have pre: "set_cell_attrs_loop (example_station, []) [] = ((example_station, []), None)"
    by simp
  have found: "super_layer example_station (PyInt 1) = Some ?found"
    by (simp add: super_layer_def next_or_None_def example_station_def)
  have ids1: "map_of ?r1 ''sl'' = Some (PyInt 1)" "map_of ?r1 ''l'' = Some (PyInt 7)"
             "map_of ?r1 ''w'' = Some (PyInt 10)"
    by simp_all
  have ids2: "map_of ?r2 ''sl'' = Some (PyInt 1)" "map_of ?r2 ''l'' = Some (PyInt 1)"
             "map_of ?r2 ''w'' = Some (PyInt 99)"
    by simp_all
  have t1: "truthy (PyInt 1)" "truthy (PyInt 7)" "truthy (PyInt 10)" by simp_all
  have t2: "truthy (PyInt 1)" "truthy (PyInt 1)" "truthy (PyInt 99)" by simp_all
  have no_layer: "layer ?found (PyInt 7) = None"
    by (simp add: layer_def next_or_None_def)
  have lay: "layer ?found (PyInt 1) = Some ?lay"
    by (simp add: layer_def next_or_None_def)
  have no_cell: "cell ?lay (PyInt 99) = None"
    by (simp add: cell_def next_or_None_def)
  have rest: "remaining_items ?r2 = (''time'', PyInt 10) # []"
    by (simp add: remaining_items_def pop_def)
  from unguarded_layer_and_cell_lookups[OF ids1 t1 pre found, of "[]"] no_layer
  have a: "set_cell_attrs example_station (Info_list [?r1]) =
             ((example_station, []), Some (AttributeError ''cell''))"
    by simp
  from unguarded_layer_and_cell_lookups[OF ids2 t2 pre found, of "[]"] lay no_cell rest
  have b: "set_cell_attrs example_station (Info_list [?r2]) =
             ((example_station, []), Some (AttributeError ''time''))"
    by simp
  from a b show ?thesis by simp
qed

end
